theory Spec2Isabelle
  imports Main "HOL-Library.AList"
begin

section \<open>Strings and paths\<close>

text \<open>
  \<^verbatim>\<open>FString\<close> is modelled as \<^typ>\<open>string\<close>. The path helpers of the engine
  that the manager relies on are written out: \<^verbatim>\<open>operator/\<close> on \<^verbatim>\<open>FString\<close>
  (it inserts one \<^verbatim>\<open>/\<close> unless the left side is empty or ends in a separator, or the
  right side starts with \<^verbatim>\<open>/\<close>), \<^verbatim>\<open>FPaths::GetPath\<close> (everything before the last
  separator, the empty string when there is none) and \<^verbatim>\<open>FPaths::GetCleanFilename\<close>
  (everything after it).
\<close>

definition is_slash :: "char \<Rightarrow> bool" where
  "is_slash c = (c = CHR ''/'' \<or> c = CHR 0x5C)"

definition path_append :: "string \<Rightarrow> string \<Rightarrow> string" where
  "path_append a b =
     (if b = [] then (if a \<noteq> [] \<and> \<not> is_slash (last a) then a @ ''/'' else a)
      else if a \<noteq> [] \<and> \<not> is_slash (last a) \<and> hd b \<noteq> CHR ''/'' then a @ ''/'' @ b
      else a @ b)"

definition GetPath :: "string \<Rightarrow> string" where
  "GetPath p = rev (tl (dropWhile (\<lambda>c. \<not> is_slash c) (rev p)))"

definition GetCleanFilename :: "string \<Rightarrow> string" where
  "GetCleanFilename p = rev (takeWhile (\<lambda>c. \<not> is_slash c) (rev p))"

definition quoted :: "string \<Rightarrow> string" where
  "quoted s = CHR 0x27 # s @ [CHR 0x27]"

definition digit_char :: "nat \<Rightarrow> char" where
  "digit_char d = ''0123456789'' ! d"

text \<open>The \<^verbatim>\<open>%d\<close> of \<^verbatim>\<open>FString::Printf\<close> on a non-negative number.\<close>

fun decimal :: "nat \<Rightarrow> string" where
  "decimal n = (if n < 10 then [digit_char n] else decimal (n div 10) @ [digit_char (n mod 10)])"

declare decimal.simps [simp del]

text \<open>The code of a character with upper-case ASCII letters folded to lower case.\<close>

definition lower_code :: "char \<Rightarrow> nat" where
  "lower_code c =
     (if 65 \<le> (of_char c :: nat) \<and> (of_char c :: nat) \<le> 90
      then of_char c + 32 else of_char c)"

text \<open>
  \<^verbatim>\<open>operator==\<close> on two \<^verbatim>\<open>FString\<close>s, which is what a container of \<^verbatim>\<open>FString\<close>s
  compares its elements with in \<^verbatim>\<open>Contains\<close>: the engine compares the two texts with
  \<^verbatim>\<open>Stricmp\<close>, that is, without regard to the case of the letters.
\<close>

definition FString_equals :: "string \<Rightarrow> string \<Rightarrow> bool" where
  "FString_equals a b = (map lower_code a = map lower_code b)"

section \<open>The platform: files, directories, the log\<close>

text \<open>
  The file system and the log are the state every operation of the manager threads.
  A file's text is kept in the form the JSON reader reconstructs from it: either text
  that \<^verbatim>\<open>FJsonSerializer::Deserialize\<close> rejects, or the object it parses to (what
  \<^verbatim>\<open>TJsonWriter\<close> emits is read back as the object written). Numbers are the
  \<^verbatim>\<open>int64\<close> the program converts them to; a unix timestamp is far below \<open>2 ^ 53\<close>,
  so its passage through \<^verbatim>\<open>double\<close> is exact.

  Whether a write or a directory creation succeeds is decided by the platform:
  \<open>write_denied\<close> and \<open>mkdir_denied\<close> list the paths at which it fails. Every request is
  recorded in \<open>requests\<close>, every \<^verbatim>\<open>UE_LOG\<close> line in \<open>log_lines\<close>, both in order.
\<close>

datatype FJsonValue = JsonNumber int | JsonString string

type_synonym FJsonObject = "(string \<times> FJsonValue) list"

datatype file_text = PlainText string | JsonText FJsonObject

datatype fs_request =
    SaveRequest string file_text bool
  | DeleteRequest string
  | MakeDirRequest string bool

datatype ELogVerbosity = Error | Warning | Display | Verbose

record world =
  files :: "(string \<times> file_text) list"
  directories :: "string list"
  write_denied :: "string list"
  mkdir_denied :: "string list"
  requests :: "fs_request list"
  log_lines :: "(ELogVerbosity \<times> string) list"

definition UE_LOG :: "ELogVerbosity \<Rightarrow> string \<Rightarrow> world \<Rightarrow> world" where
  "UE_LOG v line w = w\<lparr>log_lines := log_lines w @ [(v, line)]\<rparr>"

text \<open>\<^verbatim>\<open>FFileHelper::SaveStringToFile\<close>: true when the text was written.\<close>

definition SaveStringToFile :: "file_text \<Rightarrow> string \<Rightarrow> world \<Rightarrow> bool \<times> world" where
  "SaveStringToFile txt path w =
     (if path \<in> set (write_denied w)
      then (False, w\<lparr>requests := requests w @ [SaveRequest path txt False]\<rparr>)
      else (True, w\<lparr>files := AList.update path txt (files w),
                       requests := requests w @ [SaveRequest path txt True]\<rparr>))"

text \<open>\<^verbatim>\<open>FFileHelper::LoadFileToString\<close>: the text of the file, if there is one.\<close>

definition LoadFileToString :: "string \<Rightarrow> world \<Rightarrow> file_text option" where
  "LoadFileToString path w = map_of (files w) path"

text \<open>\<^verbatim>\<open>FJsonSerializer::Deserialize\<close> into an object.\<close>

fun Deserialize :: "file_text \<Rightarrow> FJsonObject option" where
  "Deserialize (PlainText s) = None"
| "Deserialize (JsonText obj) = Some obj"

text \<open>
  The two readers of a field the manager uses. A field is read under its own kind only.
  The engine's readers also convert between the kinds (a string field of numeric text
  is read as a number, a number field as its text); the objects below hold the time as
  a number and the package name as a string, as the writer emits them, so no read of
  this development goes through a conversion.
\<close>

definition TryGetNumberField :: "string \<Rightarrow> FJsonObject \<Rightarrow> int option" where
  "TryGetNumberField name obj =
     (case map_of obj name of Some (JsonNumber n) \<Rightarrow> Some n | _ \<Rightarrow> None)"

definition TryGetStringField :: "string \<Rightarrow> FJsonObject \<Rightarrow> string option" where
  "TryGetStringField name obj =
     (case map_of obj name of Some (JsonString s) \<Rightarrow> Some s | _ \<Rightarrow> None)"

definition DirectoryExists :: "string \<Rightarrow> world \<Rightarrow> bool" where
  "DirectoryExists dir w = (dir \<in> set (directories w))"

text \<open>The ancestors of a directory: its prefixes that end before a separator.\<close>

definition ancestor_dirs :: "string \<Rightarrow> string list" where
  "ancestor_dirs dir = [take i dir. i \<leftarrow> [1..<length dir], is_slash (dir ! i)]"

text \<open>\<^verbatim>\<open>IFileManager::MakeDirectory(dir, Tree = true)\<close>.\<close>

definition MakeDirectory :: "string \<Rightarrow> world \<Rightarrow> bool \<times> world" where
  "MakeDirectory dir w =
     (if dir \<in> set (mkdir_denied w)
      then (False, w\<lparr>requests := requests w @ [MakeDirRequest dir False]\<rparr>)
      else (True, w\<lparr>directories := directories w @ ancestor_dirs dir @ [dir],
                       requests := requests w @ [MakeDirRequest dir True]\<rparr>))"

text \<open>\<^verbatim>\<open>IPlatformFile::DeleteFile\<close>: true when a file was there to delete.\<close>

definition DeleteFile :: "string \<Rightarrow> world \<Rightarrow> bool \<times> world" where
  "DeleteFile path w =
     (map_of (files w) path \<noteq> None,
      w\<lparr>files := AList.delete path (files w),
        requests := requests w @ [DeleteRequest path]\<rparr>)"

section \<open>Dates\<close>

text \<open>
  An \<^verbatim>\<open>FDateTime\<close> is its \<^verbatim>\<open>int64\<close> tick count (100 ns since 0001-01-01).
  \<^verbatim>\<open>ToUnixTimestamp\<close> is \<^verbatim>\<open>(Ticks - FDateTime(1970, 1, 1).Ticks) / TicksPerSecond\<close>
  in 64-bit arithmetic with C++ division (towards zero), \<^verbatim>\<open>FromUnixTimestamp\<close> is
  \<^verbatim>\<open>FDateTime(1970, 1, 1) + FTimespan(UnixTime * TicksPerSecond)\<close>.
\<close>

type_synonym FDateTime = int

definition TicksPerSecond :: int where
  "TicksPerSecond = 10000000"

definition UnixEpochTicks :: int where
  "UnixEpochTicks = 621355968000000000"

definition int64 :: "int \<Rightarrow> int" where
  "int64 x = signed_take_bit 63 x"

definition cpp_div :: "int \<Rightarrow> int \<Rightarrow> int" where
  "cpp_div a b = sgn a * sgn b * (\<bar>a\<bar> div \<bar>b\<bar>)"

definition ToUnixTimestamp :: "FDateTime \<Rightarrow> int" where
  "ToUnixTimestamp t = cpp_div (int64 (t - UnixEpochTicks)) TicksPerSecond"

definition FromUnixTimestamp :: "int \<Rightarrow> FDateTime" where
  "FromUnixTimestamp u = int64 (UnixEpochTicks + int64 (u * TicksPerSecond))"

section \<open>The generated manifest\<close>

record FGeneratedManifest =
  GeneratedTime :: FDateTime
  ProtoPackageName :: string

text \<open>
  \<^verbatim>\<open>LoadLatestGeneratedManifest(Filename, Result, Message)\<close>. The local
  \<^verbatim>\<open>double GeneratedTime\<close> is declared without an initialiser, and
  \<^verbatim>\<open>TryGetNumberField\<close> leaves it alone when the field is missing: \<open>uninit\<close> is the
  value it then happens to hold. A missing \<^verbatim>\<open>ProtoPackageName\<close> leaves that field of
  \<open>Result\<close> as the caller passed it. The function returns its verdict, \<open>Result\<close>,
  \<open>Message\<close> and the platform (only the log grows).
\<close>

definition LoadLatestGeneratedManifest ::
  "string \<Rightarrow> FGeneratedManifest \<Rightarrow> string \<Rightarrow> int \<Rightarrow> world
     \<Rightarrow> bool \<times> FGeneratedManifest \<times> string \<times> world" where
  "LoadLatestGeneratedManifest Filename Result Message uninit w =
     (case LoadFileToString Filename w of
        None \<Rightarrow> (False, Result, ''Unable to load GeneratedManifest: '' @ Filename, w)
      | Some Json \<Rightarrow>
          (case Deserialize Json of
             None \<Rightarrow> (False, Result, ''GeneratedManifest is malformed: '' @ Filename, w)
           | Some RootObject \<Rightarrow>
               (let (GeneratedTime', w1) =
                      (case TryGetNumberField ''GeneratedTime'' RootObject of
                         None \<Rightarrow> (uninit, UE_LOG Warning (''Unable to find field '' @ quoted ''GeneratedTime'') w)
                       | Some n \<Rightarrow> (n, w));
                    Result1 = Result\<lparr>GeneratedTime := FromUnixTimestamp GeneratedTime'\<rparr>;
                    (Result2, w2) =
                      (case TryGetStringField ''ProtoPackageName'' RootObject of
                         None \<Rightarrow> (Result1, UE_LOG Warning (''Unable to find field '' @ quoted ''ProtoPackageName'') w1)
                       | Some s \<Rightarrow> (Result1\<lparr>ProtoPackageName := s\<rparr>, w1))
                in (True, Result2, Message, w2))))"

text \<open>
  \<^verbatim>\<open>SaveGeneratedManifest(Manifest, Filename, Message)\<close>, with the test on
  \<^verbatim>\<open>SaveStringToFile\<close> as the source has it: the branch that sets the message and
  returns false is taken when the write succeeded.
\<close>

definition SaveGeneratedManifest ::
  "FGeneratedManifest \<Rightarrow> string \<Rightarrow> string \<Rightarrow> world \<Rightarrow> bool \<times> string \<times> world" where
  "SaveGeneratedManifest Manifest Filename Message w =
     (if \<not> DirectoryExists (GetPath Filename) w
      then (False, ''Unable to find the directory of GeneratedManifest: '' @ Filename, w)
      else
        (let Json = JsonText
               [(''GeneratedTime'', JsonNumber (ToUnixTimestamp (GeneratedTime Manifest))),
                (''ProtoPackageName'', JsonString (ProtoPackageName Manifest))];
             (written, w1) = SaveStringToFile Json Filename w
         in if written
            then (False, ''Unable to save GeneratedManifest: '' @ Filename, w1)
            else (True, Message, w1)))"

section \<open>The manager\<close>

text \<open>
  The constants of \<^verbatim>\<open>ReplicatorGeneratorDefinition.h\<close> are not part of the sources at
  hand; the model takes them as given.
\<close>

record definitions =
  GenManager_GeneratedCodeDir :: string
  GenManager_TypeDefinitionHeadFile :: string
  GenManager_TypeDefinitionCppFile :: string
  GenManager_RepRegistrationHeadFile :: string
  GenManager_GlobalStructHeaderFile :: string
  GenManager_GlobalStructProtoFile :: string
  GenManager_DefaultProtoPackageName :: string
  GenManager_IntermediateDir :: string
  GenManager_GeneratedManifestFilePath :: string
  CodeGen_HeadFileExtension :: string
  CodeGen_CppFileExtension :: string
  CodeGen_ProtoFileExtension :: string
  CodeGen_ProtoPbHeadExtension :: string
  CodeGen_ProtoPbCPPExtension :: string

text \<open>
  What the manager asks of the engine and of its utilities without the model looking
  inside: the module directory the utilities report, two \<^verbatim>\<open>FPaths\<close> functions, the
  clock, and the character class \<^verbatim>\<open>\w\<close> of the regular expression engine.
\<close>

record engine =
  Utils_GetDefaultModuleDir :: string
  NormalizeDirectoryName :: "string \<Rightarrow> string"
  GetBaseFilename :: "string \<Rightarrow> string"
  Now :: FDateTime
  word_char :: "char \<Rightarrow> bool"

text \<open>A class, as far as the manager looks at it.\<close>

record UClass =
  GetName :: string
  GetPrefixCPP :: string
  GetPathName :: string
  GetPackagePath :: string

record FReplicatorGeneratorManager =
  DefaultModuleDir :: string
  ReplicatorStorageDir :: string
  IgnoreActorClasses :: "UClass list"
  IgnoreActorClassPaths :: "string list"

text \<open>The decorator of a class, as far as the manager and the assembler look at it.\<close>

record FReplicatedActorDecorator =
  Target :: UClass
  GetOriginActorName :: string
  GetPackagePathName :: string
  GetActorName :: string
  IncludeHeadFilePath :: string

record FReplicatorCode =
  ActorDecorator :: FReplicatedActorDecorator
  HeadFileName :: string
  HeadCode :: string
  CppFileName :: string
  CppCode :: string
  ProtoFileName :: string
  ProtoDefinitionsFile :: string
  IncludeActorCode :: string
  RegisterReplicatorCode :: string
  ChannelDataProcessor_PathFNameVarDecl :: string
  ChannelDataProcessor_MergeCode :: string
  ChannelDataProcessor_GetStateCode :: string
  ChannelDataProcessor_SetStateCode :: string

record FGeneratedCodeBundle =
  TypeDefinitionsHeadCode :: string
  TypeDefinitionsCppCode :: string
  ReplicatorRegistrationHeadCode :: string
  ReplicatorCodes :: "FReplicatorCode list"
  GlobalStructCodes :: string
  GlobalStructProtoDefinitions :: string
  ChannelDataProcessorHeadCode :: string
  ChannelDataProtoDefsFile :: string

definition empty_bundle :: FGeneratedCodeBundle where
  "empty_bundle = \<lparr>TypeDefinitionsHeadCode = [], TypeDefinitionsCppCode = [],
     ReplicatorRegistrationHeadCode = [], ReplicatorCodes = [], GlobalStructCodes = [],
     GlobalStructProtoDefinitions = [], ChannelDataProcessorHeadCode = [],
     ChannelDataProtoDefsFile = []\<rparr>"

text \<open>
  \<^verbatim>\<open>FReplicatorCodeGenerator::Generate\<close>, as the manager sees it: the classes, the module
  directory, the package name, the import path and the bundle to fill go in; a verdict
  and the filled bundle come out.
\<close>

type_synonym generate =
  "UClass list \<Rightarrow> string \<Rightarrow> string \<Rightarrow> string \<Rightarrow> FGeneratedCodeBundle
     \<Rightarrow> bool \<times> FGeneratedCodeBundle"

subsection \<open>Directories and names\<close>

definition GetDefaultModuleDir ::
  "engine \<Rightarrow> FReplicatorGeneratorManager \<Rightarrow> string \<times> FReplicatorGeneratorManager" where
  "GetDefaultModuleDir e m =
     (if DefaultModuleDir m = []
      then (let d = NormalizeDirectoryName e (Utils_GetDefaultModuleDir e)
            in (d, m\<lparr>DefaultModuleDir := d\<rparr>))
      else (DefaultModuleDir m, m))"

definition GetReplicatorStorageDir ::
  "definitions \<Rightarrow> engine \<Rightarrow> FReplicatorGeneratorManager
     \<Rightarrow> string \<times> FReplicatorGeneratorManager" where
  "GetReplicatorStorageDir defs e m =
     (if ReplicatorStorageDir m = []
      then (let (d, m1) = GetDefaultModuleDir e m;
                s = NormalizeDirectoryName e (path_append d (GenManager_GeneratedCodeDir defs))
            in (s, m1\<lparr>ReplicatorStorageDir := s\<rparr>))
      else (ReplicatorStorageDir m, m))"

definition GetDefaultProtoPackageName :: "definitions \<Rightarrow> string" where
  "GetDefaultProtoPackageName defs = GenManager_DefaultProtoPackageName defs"

definition GetDefaultModuleName ::
  "engine \<Rightarrow> FReplicatorGeneratorManager \<Rightarrow> string \<times> FReplicatorGeneratorManager" where
  "GetDefaultModuleName e m =
     (let (d, m1) = GetDefaultModuleDir e m in (GetBaseFilename e d, m1))"

text \<open>
  \<open>IgnoreActorClasses\<close> holds classes, found by identity; \<open>IgnoreActorClassPaths\<close> holds
  path names, found by the comparison of \<^verbatim>\<open>FString\<close>, which ignores case.
\<close>

definition IsIgnoredActor :: "FReplicatorGeneratorManager \<Rightarrow> UClass \<Rightarrow> bool" where
  "IsIgnoredActor m TargetClass =
     (TargetClass \<in> set (IgnoreActorClasses m) \<or>
      list_ex (\<lambda>p. FString_equals p (GetPathName TargetClass)) (IgnoreActorClassPaths m))"

subsection \<open>Writing the bundle\<close>

definition WriteCodeFile :: "string \<Rightarrow> string \<Rightarrow> string \<Rightarrow> world \<Rightarrow> bool \<times> string \<times> world" where
  "WriteCodeFile FilePath Code ResultMessage w =
     (let (bSuccess, w1) = SaveStringToFile (PlainText Code) FilePath w
      in (bSuccess, ResultMessage, w1))"

definition WriteProtoFile :: "string \<Rightarrow> string \<Rightarrow> string \<Rightarrow> world \<Rightarrow> bool \<times> string \<times> world" where
  "WriteProtoFile FilePath ProtoContent ResultMessage w =
     WriteCodeFile FilePath ProtoContent ResultMessage w"

definition generated_log_line :: "FReplicatorCode \<Rightarrow> string" where
  "generated_log_line ReplicatorCode =
     ''The replicator for the target class ['' @ GetOriginActorName (ActorDecorator ReplicatorCode) @
     ''] was generated successfully.'' @ [CHR 0x0A] @
     ''    Package path: '' @ GetPackagePathName (ActorDecorator ReplicatorCode) @ [CHR 0x0A] @
     ''    Head file: '' @ HeadFileName ReplicatorCode @ [CHR 0x0A] @
     ''    CPP file: '' @ CppFileName ReplicatorCode @ [CHR 0x0A] @
     ''    Proto file: '' @ ProtoFileName ReplicatorCode @ [CHR 0x0A]"

text \<open>
  The loop over \<^verbatim>\<open>ReplicatorCodeBundle.ReplicatorCodes\<close> (lines 112 to 127): three
  writes and a log line per class, whatever the writes return.
\<close>

fun write_replicator_codes ::
  "string \<Rightarrow> FReplicatorCode list \<Rightarrow> string \<Rightarrow> world \<Rightarrow> string \<times> world" where
  "write_replicator_codes StorageDir [] Message w = (Message, w)"
| "write_replicator_codes StorageDir (ReplicatorCode # rest) Message w =
     (let (b1, Message1, w1) =
            WriteCodeFile (path_append StorageDir (HeadFileName ReplicatorCode))
              (HeadCode ReplicatorCode) Message w;
          (b2, Message2, w2) =
            WriteCodeFile (path_append StorageDir (CppFileName ReplicatorCode))
              (CppCode ReplicatorCode) Message1 w1;
          (b3, Message3, w3) =
            WriteProtoFile (path_append StorageDir (ProtoFileName ReplicatorCode))
              (ProtoDefinitionsFile ReplicatorCode) Message2 w2;
          w4 = UE_LOG Verbose (generated_log_line ReplicatorCode) w3
      in write_replicator_codes StorageDir rest Message3 w4)"

text \<open>The write phase of \<^verbatim>\<open>GeneratedReplicators\<close> (lines 107 to 138).\<close>

definition write_bundle ::
  "definitions \<Rightarrow> string \<Rightarrow> string \<Rightarrow> FGeneratedCodeBundle \<Rightarrow> string \<Rightarrow> world
     \<Rightarrow> string \<times> world" where
  "write_bundle defs StorageDir DefaultModuleName Bundle Message w =
     (let (b1, Message1, w1) =
            WriteCodeFile (path_append StorageDir (GenManager_TypeDefinitionHeadFile defs))
              (TypeDefinitionsHeadCode Bundle) Message w;
          (b2, Message2, w2) =
            WriteCodeFile (path_append StorageDir (GenManager_TypeDefinitionCppFile defs))
              (TypeDefinitionsCppCode Bundle) Message1 w1;
          (Message3, w3) =
            write_replicator_codes StorageDir (ReplicatorCodes Bundle) Message2 w2;
          (b4, Message4, w4) =
            WriteCodeFile (path_append StorageDir (GenManager_RepRegistrationHeadFile defs))
              (ReplicatorRegistrationHeadCode Bundle) Message3 w3;
          (b5, Message5, w5) =
            WriteCodeFile (path_append StorageDir (GenManager_GlobalStructHeaderFile defs))
              (GlobalStructCodes Bundle) Message4 w4;
          (b6, Message6, w6) =
            WriteProtoFile (path_append StorageDir (GenManager_GlobalStructProtoFile defs))
              (GlobalStructProtoDefinitions Bundle) Message5 w5;
          (b7, Message7, w7) =
            WriteCodeFile
              (path_append StorageDir ''ChannelData_'' @ DefaultModuleName @
                 CodeGen_HeadFileExtension defs)
              (ChannelDataProcessorHeadCode Bundle) Message6 w6;
          (b8, Message8, w8) =
            WriteProtoFile
              (path_append StorageDir ''ChannelData_'' @ DefaultModuleName @
                 CodeGen_ProtoFileExtension defs)
              (ChannelDataProtoDefsFile Bundle) Message7 w7
      in (Message8, w8))"

subsection \<open>The manifest at its default place\<close>

definition EnsureReplicatorGeneratedIntermediateDir :: "definitions \<Rightarrow> world \<Rightarrow> world" where
  "EnsureReplicatorGeneratedIntermediateDir defs w =
     (if \<not> DirectoryExists (GenManager_IntermediateDir defs) w
      then snd (MakeDirectory (GenManager_IntermediateDir defs) w)
      else w)"

definition SaveGeneratedManifest_Default ::
  "definitions \<Rightarrow> FGeneratedManifest \<Rightarrow> string \<Rightarrow> world \<Rightarrow> bool \<times> string \<times> world" where
  "SaveGeneratedManifest_Default defs Manifest Message w =
     SaveGeneratedManifest Manifest (GenManager_GeneratedManifestFilePath defs) Message
       (EnsureReplicatorGeneratedIntermediateDir defs w)"

definition LoadLatestGeneratedManifest_Default ::
  "definitions \<Rightarrow> FGeneratedManifest \<Rightarrow> string \<Rightarrow> int \<Rightarrow> world
     \<Rightarrow> bool \<times> FGeneratedManifest \<times> string \<times> world" where
  "LoadLatestGeneratedManifest_Default defs Result Message uninit w =
     LoadLatestGeneratedManifest (GenManager_GeneratedManifestFilePath defs) Result Message uninit w"

subsection \<open>A generation run\<close>

text \<open>
  \<^verbatim>\<open>GeneratedReplicators\<close>. The getters fill their caches on the first call and return
  the same value on every later one (lemmas \<open>GetDefaultModuleDir_again\<close> and
  \<open>GetReplicatorStorageDir_again\<close>), so each is called once here, in the order of its
  first call in the source. The verdict of \<^verbatim>\<open>Generate\<close> is bound and never read, as in
  the source. Besides the verdict of the run, the final value of the local
  \<^verbatim>\<open>Message\<close> is returned, so that theorems can speak of it.
\<close>

definition GeneratedReplicators_Message ::
  "definitions \<Rightarrow> engine \<Rightarrow> generate \<Rightarrow> UClass list \<Rightarrow> string
     \<Rightarrow> FReplicatorGeneratorManager \<Rightarrow> world
     \<Rightarrow> bool \<times> string \<times> FReplicatorGeneratorManager \<times> world" where
  "GeneratedReplicators_Message defs e CodeGenerator_Generate TargetClasses GoPackageImportPathPrefix m w =
     (let w0 = UE_LOG Display
                 (''Start generating '' @ decimal (length TargetClasses) @ '' replicators'') w;
          ProtoPackageName = GetDefaultProtoPackageName defs;
          (ModuleDir, m1) = GetDefaultModuleDir e m;
          (generated, ReplicatorCodeBundle) =
            CodeGenerator_Generate TargetClasses ModuleDir ProtoPackageName
              (GoPackageImportPathPrefix @ ProtoPackageName) empty_bundle;
          (StorageDir, m2) = GetReplicatorStorageDir defs e m1;
          (DefaultModuleName, m3) = GetDefaultModuleName e m2;
          (Message1, w1) =
            write_bundle defs StorageDir DefaultModuleName ReplicatorCodeBundle [] w0;
          w2 = UE_LOG Display
                 (''The generation of replicators is completed, '' @
                  decimal (length TargetClasses) @
                  '' replicators need to be generated, a total of '' @
                  decimal (length (ReplicatorCodes ReplicatorCodeBundle)) @
                  '' replicators are generated'') w1;
          Manifest = \<lparr>GeneratedTime = Now e, ProtoPackageName = ProtoPackageName\<rparr>;
          (saved, Message2, w3) = SaveGeneratedManifest_Default defs Manifest Message1 w2
      in if saved
         then (False, Message2, m3,
               UE_LOG Error
                 (''Failed to save the generated manifest file, error message: '' @ Message2) w3)
         else (True, Message2, m3, w3))"

definition GeneratedReplicators ::
  "definitions \<Rightarrow> engine \<Rightarrow> generate \<Rightarrow> UClass list \<Rightarrow> string
     \<Rightarrow> FReplicatorGeneratorManager \<Rightarrow> world
     \<Rightarrow> bool \<times> FReplicatorGeneratorManager \<times> world" where
  "GeneratedReplicators defs e CodeGenerator_Generate TargetClasses GoPackageImportPathPrefix m w =
     (let (result, Message, m', w') =
            GeneratedReplicators_Message defs e CodeGenerator_Generate TargetClasses
              GoPackageImportPathPrefix m w
      in (result, m', w'))"

subsection \<open>What was generated before\<close>

text \<open>
  \<^verbatim>\<open>IFileManager::FindFiles(FoundFiles, Directory, FileExtension)\<close> with a plain
  extension (no wildcard of its own, and not empty). Nothing is found in a directory
  without a name. The extension is completed to the wildcard \<^verbatim>\<open>*.EXT\<close>, which a
  name matches when it ends in \<^verbatim>\<open>.EXT\<close>, compared without regard to case. The names
  are returned without their directory. The directory the manager hands over went
  through \<^verbatim>\<open>NormalizeDirectoryName\<close> already.
\<close>

definition has_extension :: "string \<Rightarrow> string \<Rightarrow> bool" where
  "has_extension ext name =
     (length ext \<le> length name \<and>
      map lower_code (drop (length name - length ext) name) = map lower_code ext)"

definition dotted :: "string \<Rightarrow> string" where
  "dotted ext = (if take 1 ext = ''.'' then ext else ''.'' @ ext)"

definition FindFiles :: "string \<Rightarrow> string \<Rightarrow> world \<Rightarrow> string list" where
  "FindFiles Directory FileExtension w =
     (if Directory = [] then []
      else [GetCleanFilename p. p \<leftarrow> map fst (files w),
              GetPath p = Directory \<and> has_extension (dotted FileExtension) (GetCleanFilename p)])"

text \<open>
  The regular expression \<^verbatim>\<open>^Channeld(\w+)Replicator\.h$\<close> on a file name: both ends
  are anchored and fixed, so the only candidate for group 1 is what stands between
  them. (The names it is applied to end in the extension, so \<^verbatim>\<open>$\<close> has the end of the
  name to match and no line terminator before it.)
\<close>

definition capture_replicator_head :: "(char \<Rightarrow> bool) \<Rightarrow> string \<Rightarrow> string option" where
  "capture_replicator_head word HeadFile =
     (let mid = take (length HeadFile - length ''Channeld'' - length ''Replicator.h'')
                  (drop (length ''Channeld'') HeadFile)
      in if take (length ''Channeld'') HeadFile = ''Channeld'' \<and>
            drop (length ''Channeld'' + length mid) HeadFile = ''Replicator.h'' \<and>
            mid \<noteq> [] \<and> list_all word mid
         then Some mid else None)"

fun collect_captures :: "(char \<Rightarrow> bool) \<Rightarrow> string list \<Rightarrow> string list \<Rightarrow> string list" where
  "collect_captures word [] Result = Result"
| "collect_captures word (HeadFile # rest) Result =
     collect_captures word rest
       (case capture_replicator_head word HeadFile of
          Some CaptureString \<Rightarrow> Result @ [CaptureString]
        | None \<Rightarrow> Result)"

definition GetGeneratedTargetClasses ::
  "definitions \<Rightarrow> engine \<Rightarrow> FReplicatorGeneratorManager \<Rightarrow> world
     \<Rightarrow> string list \<times> FReplicatorGeneratorManager" where
  "GetGeneratedTargetClasses defs e m w =
     (let (StorageDir, m1) = GetReplicatorStorageDir defs e m;
          HeadFiles = FindFiles StorageDir (CodeGen_HeadFileExtension defs) w
      in (collect_captures (word_char e) HeadFiles [], m1))"

subsection \<open>Removing what was generated\<close>

definition RemoveGeneratedReplicator :: "definitions \<Rightarrow> string \<Rightarrow> world \<Rightarrow> world" where
  "RemoveGeneratedReplicator defs ClassName w =
     (let (d1, w1) = DeleteFile (''Channeld'' @ ClassName @ ''Replicator'' @
                                   CodeGen_CppFileExtension defs) w;
          (d2, w2) = DeleteFile (''Channeld'' @ ClassName @ ''Replicator'' @
                                   CodeGen_HeadFileExtension defs) w1;
          (d3, w3) = DeleteFile (ClassName @ CodeGen_ProtoFileExtension defs) w2;
          (d4, w4) = DeleteFile (ClassName @ CodeGen_ProtoPbHeadExtension defs) w3;
          (d5, w5) = DeleteFile (ClassName @ CodeGen_ProtoPbCPPExtension defs) w4
      in w5)"

fun RemoveGeneratedReplicators :: "definitions \<Rightarrow> string list \<Rightarrow> world \<Rightarrow> world" where
  "RemoveGeneratedReplicators defs [] w = w"
| "RemoveGeneratedReplicators defs (ClassName # rest) w =
     RemoveGeneratedReplicators defs rest (RemoveGeneratedReplicator defs ClassName w)"

section \<open>The code generator\<close>

text \<open>
  Of \<^verbatim>\<open>FReplicatorCodeGenerator\<close> the sources hold the declaration only
  (\<^verbatim>\<open>ReplicatorCodeGenerator.h\<close>): the fields below are its members, the bodies of
  \<^verbatim>\<open>GetClassHeadFilePath\<close>, \<^verbatim>\<open>CreateDecorateActor\<close> and \<^verbatim>\<open>Generate\<close> are not at hand.
  What follows in this section is written from the specification, sections 4.1 to 4.4
  and 7. The \<^verbatim>\<open>int32\<close> counters are natural numbers: a run would need \<open>2 ^ 31\<close>
  classes of one name to overflow them.
\<close>

text \<open>Modelled from the spec: the error kinds of section 7.\<close>

datatype generation_error =
  NotFound | NotPrimed | Malformed | Ignored | HeaderNotFound | DirMissing | WriteFailed

text \<open>
  Modelled from the spec: the state of the generator. \<open>ModuleInfoLoaded\<close> says that the
  resolver was primed (\<^verbatim>\<open>RefreshModuleInfoByClassName\<close> was called);
  \<open>CPPClassInfoMap\<close> gives the declaring header of a class name;
  \<open>IllegalClassNameIndex\<close> and \<open>TargetActorSameNameCounter\<close> are the counters of the
  name deduplicator.
\<close>

record FReplicatorCodeGenerator =
  ModuleInfoLoaded :: bool
  CPPClassInfoMap :: "string \<Rightarrow> string option"
  IllegalClassNameIndex :: nat
  TargetActorSameNameCounter :: "string \<Rightarrow> nat option"

text \<open>
  Modelled from the spec: the texts a bundle holds, per class (the first nine) and per
  run (the last seven).
\<close>

datatype artifact =
    HeadCodeOf | CppCodeOf | ProtoDefinitionsOf | IncludeActorCodeOf | RegisterReplicatorCodeOf
  | PathFNameVarDeclOf | MergeCodeOf | GetStateCodeOf | SetStateCodeOf
  | TypeDefinitionsHead | TypeDefinitionsCpp | RegistrationHead | GlobalStructs
  | GlobalStructProto | ChannelDataProcessorHead | ChannelDataProto

text \<open>
  Modelled from the spec: what the specification leaves to the templates. Whether a base
  name survives identifier sanitization, and the text of each artifact as a function of
  the decorators it is rendered from, the schema package name and the import path.
\<close>

record templates =
  IsCompilableName :: "string \<Rightarrow> bool"
  Render :: "artifact \<Rightarrow> FReplicatedActorDecorator list \<Rightarrow> string \<Rightarrow> string \<Rightarrow> string"

text \<open>
  Modelled from the spec: ModuleResolver (4.1), the missing body of
  \<^verbatim>\<open>GetClassHeadFilePath\<close>. A lookup; \<open>NotPrimed\<close> before the manifest was loaded,
  \<open>NotFound\<close> when no module declares the class.
\<close>

definition resolve :: "FReplicatorCodeGenerator \<Rightarrow> string \<Rightarrow> generation_error + string" where
  "resolve g className =
     (if \<not> ModuleInfoLoaded g then Inl NotPrimed
      else case CPPClassInfoMap g className of
             None \<Rightarrow> Inl NotFound
           | Some headerPath \<Rightarrow> Inr headerPath)"

text \<open>
  Modelled from the spec: the composed name of NameDeduplicator (4.2), the base name with
  a counter suffix; the scenario of section 8 writes it \<^verbatim>\<open>A_1\<close>.
\<close>

definition composed_name :: "string \<Rightarrow> nat \<Rightarrow> string" where
  "composed_name baseName c = baseName @ ''_'' @ decimal c"

text \<open>
  Modelled from the spec: NameDeduplicator (4.2), the callback missing with the body of
  \<^verbatim>\<open>CreateDecorateActor\<close>. A legal base name not seen in the run is returned unchanged
  and recorded as seen. A base name seen before, or an illegal one, gets the counter of
  that base name appended, and the counter moves on. The empty base name takes the
  run-scoped counter in place of the base name.
\<close>

definition assign ::
  "(string \<Rightarrow> bool) \<Rightarrow> string \<Rightarrow> FReplicatorCodeGenerator \<Rightarrow> string \<times> FReplicatorCodeGenerator" where
  "assign legal baseName g =
     (if baseName = []
      then (composed_name [] (IllegalClassNameIndex g),
            g\<lparr>IllegalClassNameIndex := IllegalClassNameIndex g + 1\<rparr>)
      else
        (case TargetActorSameNameCounter g baseName of
           None \<Rightarrow>
             if legal baseName
             then (baseName,
                   g\<lparr>TargetActorSameNameCounter := (TargetActorSameNameCounter g)(baseName \<mapsto> 1)\<rparr>)
             else (composed_name baseName 0,
                   g\<lparr>TargetActorSameNameCounter := (TargetActorSameNameCounter g)(baseName \<mapsto> 1)\<rparr>)
         | Some c \<Rightarrow>
             (composed_name baseName c,
              g\<lparr>TargetActorSameNameCounter := (TargetActorSameNameCounter g)(baseName \<mapsto> c + 1)\<rparr>)))"

text \<open>
  Modelled from the spec: the counters are scoped to a run (4.2, 5), so a run starts
  with both at their initial values.
\<close>

definition new_run :: "FReplicatorCodeGenerator \<Rightarrow> FReplicatorCodeGenerator" where
  "new_run g = g\<lparr>IllegalClassNameIndex := 0, TargetActorSameNameCounter := Map.empty\<rparr>"

text \<open>
  Modelled from the spec: ActorDescriptor construction (4.3), the missing body of
  \<^verbatim>\<open>CreateDecorateActor\<close>. The ignore list is asked first (\<open>IsIgnoredActor\<close>, which is
  in the sources), then the resolver, under the name \<^verbatim>\<open>HeaderFilesCanBeFound\<close> builds in
  the sources (prefix and name); then the identifier is assigned. The normalization of
  properties and RPCs (step 4) is left to the templates, which receive the decorator.
\<close>

definition CreateDecorateActor ::
  "templates \<Rightarrow> FReplicatorGeneratorManager \<Rightarrow> UClass \<Rightarrow> string \<Rightarrow> string \<Rightarrow> bool \<Rightarrow> bool
     \<Rightarrow> FReplicatorCodeGenerator
     \<Rightarrow> (generation_error + FReplicatedActorDecorator) \<times> FReplicatorCodeGenerator" where
  "CreateDecorateActor tpl m TargetActor PackageName GoPackageImportPath
       bInitPropertiesAndRPCs bIncrementIfSameName g =
     (if IsIgnoredActor m TargetActor then (Inl Ignored, g)
      else
        (case resolve g (GetPrefixCPP TargetActor @ GetName TargetActor) of
           Inl e \<Rightarrow> (Inl HeaderNotFound, g)
         | Inr headerPath \<Rightarrow>
             (let (ident, g1) =
                    (if bIncrementIfSameName
                     then assign (IsCompilableName tpl) (GetName TargetActor) g
                     else (GetName TargetActor, g))
              in (Inr \<lparr>Target = TargetActor,
                        GetOriginActorName = GetName TargetActor,
                        GetPackagePathName = GetPackagePath TargetActor,
                        GetActorName = ident,
                        IncludeHeadFilePath = headerPath\<rparr>, g1))))"

text \<open>
  Modelled from the spec: the first step of BundleAssembler (4.4). One decorator per
  class in the order of the input; a class that fails with \<open>Ignored\<close> is skipped, any
  other failure aborts and is returned.
\<close>

fun describe_all ::
  "templates \<Rightarrow> FReplicatorGeneratorManager \<Rightarrow> string \<Rightarrow> string \<Rightarrow> UClass list
     \<Rightarrow> FReplicatorCodeGenerator
     \<Rightarrow> (generation_error + FReplicatedActorDecorator list) \<times> FReplicatorCodeGenerator" where
  "describe_all tpl m PackageName GoPackageImportPath [] g = (Inr [], g)"
| "describe_all tpl m PackageName GoPackageImportPath (TargetActor # rest) g =
     (case CreateDecorateActor tpl m TargetActor PackageName GoPackageImportPath True True g of
        (Inl Ignored, g1) \<Rightarrow> describe_all tpl m PackageName GoPackageImportPath rest g1
      | (Inl e, g1) \<Rightarrow> (Inl e, g1)
      | (Inr d, g1) \<Rightarrow>
          (case describe_all tpl m PackageName GoPackageImportPath rest g1 of
             (Inl e, g2) \<Rightarrow> (Inl e, g2)
           | (Inr ds, g2) \<Rightarrow> (Inr (d # ds), g2)))"

text \<open>
  Modelled from the spec: the per-class entry of a bundle (4.4, and 4.3 step 5). The file
  names follow the convention \<open>RemoveGeneratedReplicator\<close> and
  \<open>GetGeneratedTargetClasses\<close> rely on in the sources.
\<close>

definition GenerateActorCode ::
  "templates \<Rightarrow> definitions \<Rightarrow> string \<Rightarrow> string \<Rightarrow> FReplicatedActorDecorator \<Rightarrow> FReplicatorCode" where
  "GenerateActorCode tpl defs PackageName GoPackageImportPath d =
     \<lparr>ActorDecorator = d,
      HeadFileName = ''Channeld'' @ GetActorName d @ ''Replicator'' @ CodeGen_HeadFileExtension defs,
      HeadCode = Render tpl HeadCodeOf [d] PackageName GoPackageImportPath,
      CppFileName = ''Channeld'' @ GetActorName d @ ''Replicator'' @ CodeGen_CppFileExtension defs,
      CppCode = Render tpl CppCodeOf [d] PackageName GoPackageImportPath,
      ProtoFileName = GetActorName d @ CodeGen_ProtoFileExtension defs,
      ProtoDefinitionsFile = Render tpl ProtoDefinitionsOf [d] PackageName GoPackageImportPath,
      IncludeActorCode = Render tpl IncludeActorCodeOf [d] PackageName GoPackageImportPath,
      RegisterReplicatorCode =
        Render tpl RegisterReplicatorCodeOf [d] PackageName GoPackageImportPath,
      ChannelDataProcessor_PathFNameVarDecl =
        Render tpl PathFNameVarDeclOf [d] PackageName GoPackageImportPath,
      ChannelDataProcessor_MergeCode = Render tpl MergeCodeOf [d] PackageName GoPackageImportPath,
      ChannelDataProcessor_GetStateCode =
        Render tpl GetStateCodeOf [d] PackageName GoPackageImportPath,
      ChannelDataProcessor_SetStateCode =
        Render tpl SetStateCodeOf [d] PackageName GoPackageImportPath\<rparr>"

text \<open>
  Modelled from the spec: BundleAssembler (4.4), the missing body of \<^verbatim>\<open>Generate\<close>. A
  run starts with fresh counters, builds the decorators, and renders the per-class
  entries and the shared artifacts from the surviving decorators; on a failure there is
  no bundle.
\<close>

definition Generate ::
  "templates \<Rightarrow> definitions \<Rightarrow> FReplicatorGeneratorManager \<Rightarrow> UClass list \<Rightarrow> string \<Rightarrow> string
     \<Rightarrow> string \<Rightarrow> FReplicatorCodeGenerator
     \<Rightarrow> (generation_error + FGeneratedCodeBundle) \<times> FReplicatorCodeGenerator" where
  "Generate tpl defs m TargetActors ModuleDir PackageName GoPackageImportPath g =
     (case describe_all tpl m PackageName GoPackageImportPath TargetActors (new_run g) of
        (Inl e, g1) \<Rightarrow> (Inl e, g1)
      | (Inr ds, g1) \<Rightarrow>
          (Inr \<lparr>TypeDefinitionsHeadCode =
                   Render tpl TypeDefinitionsHead ds PackageName GoPackageImportPath,
                 TypeDefinitionsCppCode =
                   Render tpl TypeDefinitionsCpp ds PackageName GoPackageImportPath,
                 ReplicatorRegistrationHeadCode =
                   Render tpl RegistrationHead ds PackageName GoPackageImportPath,
                 ReplicatorCodes =
                   map (GenerateActorCode tpl defs PackageName GoPackageImportPath) ds,
                 GlobalStructCodes =
                   Render tpl GlobalStructs ds PackageName GoPackageImportPath,
                 GlobalStructProtoDefinitions =
                   Render tpl GlobalStructProto ds PackageName GoPackageImportPath,
                 ChannelDataProcessorHeadCode =
                   Render tpl ChannelDataProcessorHead ds PackageName GoPackageImportPath,
                 ChannelDataProtoDefsFile =
                   Render tpl ChannelDataProto ds PackageName GoPackageImportPath\<rparr>, g1))"

section \<open>Notions the theorems are stated with\<close>

subsection \<open>Requests of a run\<close>

text \<open>The request a write of \<open>Code\<close> to \<open>FilePath\<close> leaves, with its outcome.\<close>

definition attempt :: "world \<Rightarrow> string \<times> string \<Rightarrow> fs_request" where
  "attempt w pc = SaveRequest (fst pc) (PlainText (snd pc)) (fst pc \<notin> set (write_denied w))"

text \<open>The files of one class and of a whole bundle: path and text, in the order of the fields.\<close>

definition replicator_files :: "string \<Rightarrow> FReplicatorCode \<Rightarrow> (string \<times> string) list" where
  "replicator_files StorageDir rc =
     [(path_append StorageDir (HeadFileName rc), HeadCode rc),
      (path_append StorageDir (CppFileName rc), CppCode rc),
      (path_append StorageDir (ProtoFileName rc), ProtoDefinitionsFile rc)]"

definition bundle_files ::
  "definitions \<Rightarrow> string \<Rightarrow> string \<Rightarrow> FGeneratedCodeBundle \<Rightarrow> (string \<times> string) list" where
  "bundle_files defs StorageDir DefaultModuleName Bundle =
     [(path_append StorageDir (GenManager_TypeDefinitionHeadFile defs), TypeDefinitionsHeadCode Bundle),
      (path_append StorageDir (GenManager_TypeDefinitionCppFile defs), TypeDefinitionsCppCode Bundle)] @
     concat (map (replicator_files StorageDir) (ReplicatorCodes Bundle)) @
     [(path_append StorageDir (GenManager_RepRegistrationHeadFile defs), ReplicatorRegistrationHeadCode Bundle),
      (path_append StorageDir (GenManager_GlobalStructHeaderFile defs), GlobalStructCodes Bundle),
      (path_append StorageDir (GenManager_GlobalStructProtoFile defs), GlobalStructProtoDefinitions Bundle),
      (path_append StorageDir ''ChannelData_'' @ DefaultModuleName @ CodeGen_HeadFileExtension defs,
         ChannelDataProcessorHeadCode Bundle),
      (path_append StorageDir ''ChannelData_'' @ DefaultModuleName @ CodeGen_ProtoFileExtension defs,
         ChannelDataProtoDefsFile Bundle)]"

text \<open>The bundle a run received from the generator, its files, and the manifest it saves.\<close>

definition run_bundle ::
  "definitions \<Rightarrow> engine \<Rightarrow> generate \<Rightarrow> UClass list \<Rightarrow> string \<Rightarrow> FReplicatorGeneratorManager
     \<Rightarrow> FGeneratedCodeBundle" where
  "run_bundle defs e gen TargetClasses GoPackageImportPathPrefix m =
     snd (gen TargetClasses (fst (GetDefaultModuleDir e m)) (GetDefaultProtoPackageName defs)
            (GoPackageImportPathPrefix @ GetDefaultProtoPackageName defs) empty_bundle)"

definition run_files ::
  "definitions \<Rightarrow> engine \<Rightarrow> generate \<Rightarrow> UClass list \<Rightarrow> string \<Rightarrow> FReplicatorGeneratorManager
     \<Rightarrow> (string \<times> string) list" where
  "run_files defs e gen TargetClasses GoPackageImportPathPrefix m =
     bundle_files defs (fst (GetReplicatorStorageDir defs e m))
       (GetBaseFilename e (fst (GetDefaultModuleDir e m)))
       (run_bundle defs e gen TargetClasses GoPackageImportPathPrefix m)"

definition run_manifest :: "definitions \<Rightarrow> engine \<Rightarrow> FGeneratedManifest" where
  "run_manifest defs e =
     \<lparr>GeneratedTime = Now e, ProtoPackageName = GetDefaultProtoPackageName defs\<rparr>"

subsection \<open>The manifest\<close>

text \<open>The directory of the manifest file exists when the file is about to be written.\<close>

definition manifest_dir_ready :: "definitions \<Rightarrow> world \<Rightarrow> bool" where
  "manifest_dir_ready defs w =
     DirectoryExists (GetPath (GenManager_GeneratedManifestFilePath defs))
       (EnsureReplicatorGeneratedIntermediateDir defs w)"

definition dirs_after_ensure :: "definitions \<Rightarrow> string list \<Rightarrow> string list \<Rightarrow> string list" where
  "dirs_after_ensure defs dirs denied =
     (if GenManager_IntermediateDir defs \<in> set dirs \<or> GenManager_IntermediateDir defs \<in> set denied
      then dirs
      else dirs @ ancestor_dirs (GenManager_IntermediateDir defs) @ [GenManager_IntermediateDir defs])"

text \<open>The text of a manifest file, and the requests saving it at its default place leaves.\<close>

definition manifest_text :: "FGeneratedManifest \<Rightarrow> file_text" where
  "manifest_text Manifest = JsonText
     [(''GeneratedTime'', JsonNumber (ToUnixTimestamp (GeneratedTime Manifest))),
      (''ProtoPackageName'', JsonString (ProtoPackageName Manifest))]"

definition manifest_requests :: "definitions \<Rightarrow> FGeneratedManifest \<Rightarrow> world \<Rightarrow> fs_request list" where
  "manifest_requests defs Manifest w =
     (if DirectoryExists (GenManager_IntermediateDir defs) w then []
      else [MakeDirRequest (GenManager_IntermediateDir defs)
              (GenManager_IntermediateDir defs \<notin> set (mkdir_denied w))]) @
     (if manifest_dir_ready defs w
      then [SaveRequest (GenManager_GeneratedManifestFilePath defs) (manifest_text Manifest)
              (GenManager_GeneratedManifestFilePath defs \<notin> set (write_denied w))]
      else [])"

text \<open>
  The tick counts on which \<^verbatim>\<open>ToUnixTimestamp\<close> does not overflow. Every date an
  \<^verbatim>\<open>FDateTime\<close> is meant to hold (ticks \<open>0\<close> to \<open>3155378975999999999\<close>) is among them.
\<close>

definition unix_time_defined :: "FDateTime \<Rightarrow> bool" where
  "unix_time_defined t = (- (2 ^ 63) + UnixEpochTicks \<le> t \<and> t < 2 ^ 63)"

text \<open>Saving a manifest and loading from the same path, in a row.\<close>

definition save_then_load ::
  "FGeneratedManifest \<Rightarrow> string \<Rightarrow> FGeneratedManifest \<Rightarrow> int \<Rightarrow> world
     \<Rightarrow> bool \<times> FGeneratedManifest \<times> string \<times> world" where
  "save_then_load Manifest Filename Result uninit w =
     LoadLatestGeneratedManifest Filename Result [] uninit
       (snd (snd (SaveGeneratedManifest Manifest Filename [] w)))"

subsection \<open>Names\<close>

text \<open>The five file names \<open>RemoveGeneratedReplicator\<close> derives from a class name.\<close>

definition replicator_file_names :: "definitions \<Rightarrow> string \<Rightarrow> string list" where
  "replicator_file_names defs ClassName =
     [''Channeld'' @ ClassName @ ''Replicator'' @ CodeGen_CppFileExtension defs,
      ''Channeld'' @ ClassName @ ''Replicator'' @ CodeGen_HeadFileExtension defs,
      ClassName @ CodeGen_ProtoFileExtension defs,
      ClassName @ CodeGen_ProtoPbHeadExtension defs,
      ClassName @ CodeGen_ProtoPbCPPExtension defs]"

definition decorated :: "UClass \<Rightarrow> string \<Rightarrow> string \<Rightarrow> FReplicatedActorDecorator" where
  "decorated c ident headerPath =
     \<lparr>Target = c, GetOriginActorName = GetName c, GetPackagePathName = GetPackagePath c,
      GetActorName = ident, IncludeHeadFilePath = headerPath\<rparr>"

section \<open>Examples\<close>

text \<open>The ASCII part of \<^verbatim>\<open>\w\<close>: digits, letters and the underscore.\<close>

definition ascii_word_char :: "char \<Rightarrow> bool" where
  "ascii_word_char c =
     (let n = (of_char c :: nat)
      in (48 \<le> n \<and> n \<le> 57) \<or> (65 \<le> n \<and> n \<le> 90) \<or> n = 95 \<or> (97 \<le> n \<and> n \<le> 122))"

definition example_defs :: definitions where
  "example_defs =
     \<lparr>GenManager_GeneratedCodeDir = ''ChanneldGenerated'',
      GenManager_TypeDefinitionHeadFile = ''ChanneldGeneratedTypes.h'',
      GenManager_TypeDefinitionCppFile = ''ChanneldGeneratedTypes.cpp'',
      GenManager_RepRegistrationHeadFile = ''ChanneldReplicatorRegistration.h'',
      GenManager_GlobalStructHeaderFile = ''ChanneldGlobalStruct.h'',
      GenManager_GlobalStructProtoFile = ''unreal_global_struct.proto'',
      GenManager_DefaultProtoPackageName = ''channeldpb'',
      GenManager_IntermediateDir = ''Intermediate'',
      GenManager_GeneratedManifestFilePath = ''Intermediate/GeneratedManifest.json'',
      CodeGen_HeadFileExtension = ''.h'',
      CodeGen_CppFileExtension = ''.cpp'',
      CodeGen_ProtoFileExtension = ''.proto'',
      CodeGen_ProtoPbHeadExtension = ''.pb.h'',
      CodeGen_ProtoPbCPPExtension = ''.pb.cpp''\<rparr>"

definition example_engine :: engine where
  "example_engine =
     \<lparr>Utils_GetDefaultModuleDir = ''Source/Game'',
      NormalizeDirectoryName = (\<lambda>d. d),
      GetBaseFilename = GetCleanFilename,
      Now = 638000000000000000,
      word_char = ascii_word_char\<rparr>"

definition example_manager :: FReplicatorGeneratorManager where
  "example_manager =
     \<lparr>DefaultModuleDir = [], ReplicatorStorageDir = [],
      IgnoreActorClasses = [], IgnoreActorClassPaths = [''/script/game.BAR'']\<rparr>"

definition class_Foo :: UClass where
  "class_Foo = \<lparr>GetName = ''Foo'', GetPrefixCPP = ''A'', GetPathName = ''/Script/Game.Foo'',
     GetPackagePath = ''/Script/Game''\<rparr>"

definition class_Bar :: UClass where
  "class_Bar = \<lparr>GetName = ''Bar'', GetPrefixCPP = ''A'', GetPathName = ''/Script/Game.Bar'',
     GetPackagePath = ''/Script/Game''\<rparr>"

text \<open>A generator that fails, and one that returns a bundle of one text.\<close>

definition failing_generate :: generate where
  "failing_generate TargetActors ModuleDir PackageName GoPackageImportPath Bundle = (False, Bundle)"

definition example_generate :: generate where
  "example_generate TargetActors ModuleDir PackageName GoPackageImportPath Bundle =
     (True, Bundle\<lparr>TypeDefinitionsHeadCode := ''// types''\<rparr>)"

text \<open>
  Worlds: one where the directory of the manifest exists and nothing is there or denied;
  one where that directory is missing and cannot be made; one where the first artifact
  and the manifest cannot be written; one with generated files in place; one with a
  manifest that lacks its time.
\<close>

definition empty_world :: world where
  "empty_world = \<lparr>files = [], directories = [''Intermediate''], write_denied = [],
     mkdir_denied = [], requests = [], log_lines = []\<rparr>"

definition dirless_world :: world where
  "dirless_world = empty_world\<lparr>directories := [], mkdir_denied := [''Intermediate'']\<rparr>"

definition denied_world :: world where
  "denied_world = empty_world\<lparr>write_denied :=
     [''Source/Game/ChanneldGenerated/ChanneldGeneratedTypes.h'',
      ''Intermediate/GeneratedManifest.json'']\<rparr>"

definition listing_world :: world where
  "listing_world = empty_world\<lparr>files :=
     [(''Source/Game/ChanneldGenerated/ChanneldFooReplicator.h'', PlainText ''// Foo''),
      (''Source/Game/ChanneldGenerated/ChanneldGeneratedTypes.h'', PlainText ''// types''),
      (''Source/Game/ChanneldGenerated/Foo.proto'', PlainText ''// proto''),
      (''Source/Game/Other/ChanneldBarReplicator.h'', PlainText ''// elsewhere'')]\<rparr>"

definition world_without_time :: world where
  "world_without_time = empty_world\<lparr>files :=
     [(''Intermediate/GeneratedManifest.json'',
       JsonText [(''ProtoPackageName'', JsonString ''channeldpb'')])]\<rparr>"

definition example_manifest :: FGeneratedManifest where
  "example_manifest = \<lparr>GeneratedTime = 638000000000000000, ProtoPackageName = ''channeldpb''\<rparr>"

text \<open>
  A generator after its module information was loaded, fresh and after earlier runs,
  and templates that render the identifiers they are given.
\<close>

definition example_generator :: FReplicatorCodeGenerator where
  "example_generator =
     \<lparr>ModuleInfoLoaded = True,
      CPPClassInfoMap = map_of [(''AFoo'', ''Public/Foo.h''), (''ABar'', ''Public/Bar.h'')],
      IllegalClassNameIndex = 0,
      TargetActorSameNameCounter = Map.empty\<rparr>"

definition used_generator :: FReplicatorCodeGenerator where
  "used_generator =
     example_generator\<lparr>IllegalClassNameIndex := 3,
       TargetActorSameNameCounter := map_of [(''Foo'', 2)]\<rparr>"

definition example_templates :: templates where
  "example_templates =
     \<lparr>IsCompilableName = list_all ascii_word_char,
      Render = (\<lambda>a ds PackageName GoPackageImportPath. concat (map GetActorName ds))\<rparr>"

section \<open>The getters\<close>

text \<open>A getter called again returns what it returned, and leaves the manager as it was.\<close>

lemma GetDefaultModuleDir_again:
  "GetDefaultModuleDir e (snd (GetDefaultModuleDir e m)) = GetDefaultModuleDir e m"
  by (simp add: GetDefaultModuleDir_def Let_def)

lemma GetReplicatorStorageDir_again:
  "GetReplicatorStorageDir defs e (snd (GetReplicatorStorageDir defs e m)) =
     GetReplicatorStorageDir defs e m"
  by (simp add: GetReplicatorStorageDir_def GetDefaultModuleDir_def Let_def split_def)

lemma GetDefaultModuleDir_after_storage:
  "fst (GetDefaultModuleDir e (snd (GetReplicatorStorageDir defs e m))) = fst (GetDefaultModuleDir e m)"
  by (simp add: GetReplicatorStorageDir_def GetDefaultModuleDir_def Let_def split_def)

lemma GetReplicatorStorageDir_after_module:
  "fst (GetReplicatorStorageDir defs e (snd (GetDefaultModuleDir e m))) = fst (GetReplicatorStorageDir defs e m)"
  by (simp add: GetReplicatorStorageDir_def GetDefaultModuleDir_def Let_def split_def)

section \<open>The write phase\<close>

lemma WriteCodeFile_Message [simp]: "fst (snd (WriteCodeFile p c msg w)) = msg"
  by (simp add: WriteCodeFile_def split_def Let_def)

lemma WriteCodeFile_requests:
  "requests (snd (snd (WriteCodeFile p c msg w))) = requests w @ [attempt w (p, c)]"
  by (simp add: WriteCodeFile_def SaveStringToFile_def attempt_def split_def)

lemma WriteCodeFile_frame [simp]:
  "directories (snd (snd (WriteCodeFile p c msg w))) = directories w"
  "write_denied (snd (snd (WriteCodeFile p c msg w))) = write_denied w"
  "mkdir_denied (snd (snd (WriteCodeFile p c msg w))) = mkdir_denied w"
  "log_lines (snd (snd (WriteCodeFile p c msg w))) = log_lines w"
  by (simp_all add: WriteCodeFile_def SaveStringToFile_def split_def)

lemma write_replicator_codes_Message [simp]:
  "fst (write_replicator_codes dir rcs msg w) = msg"
  by (induction rcs arbitrary: msg w) (simp_all add: split_def Let_def WriteProtoFile_def)

lemma write_replicator_codes_frame [simp]:
  "directories (snd (write_replicator_codes dir rcs msg w)) = directories w"
  "write_denied (snd (write_replicator_codes dir rcs msg w)) = write_denied w"
  "mkdir_denied (snd (write_replicator_codes dir rcs msg w)) = mkdir_denied w"
  by (induction rcs arbitrary: msg w; simp add: split_def Let_def WriteProtoFile_def UE_LOG_def)+

lemma write_replicator_codes_requests:
  "requests (snd (write_replicator_codes dir rcs msg w)) =
     requests w @ map (attempt w) (concat (map (replicator_files dir) rcs))"
proof (induction rcs arbitrary: msg w)
  case Nil
  show ?case by simp
next
  case (Cons rc rcs)
  show ?case
    by (simp add: split_def Let_def WriteProtoFile_def Cons.IH UE_LOG_def
        WriteCodeFile_requests replicator_files_def attempt_def)
qed

lemma write_bundle_Message [simp]:
  "fst (write_bundle defs dir name B msg w) = msg"
  by (simp add: write_bundle_def split_def Let_def WriteProtoFile_def)

lemma write_bundle_frame [simp]:
  "directories (snd (write_bundle defs dir name B msg w)) = directories w"
  "write_denied (snd (write_bundle defs dir name B msg w)) = write_denied w"
  "mkdir_denied (snd (write_bundle defs dir name B msg w)) = mkdir_denied w"
  by (simp_all add: write_bundle_def split_def Let_def WriteProtoFile_def)

lemma write_bundle_requests:
  "requests (snd (write_bundle defs dir name B msg w)) =
     requests w @ map (attempt w) (bundle_files defs dir name B)"
  by (simp add: write_bundle_def split_def Let_def WriteProtoFile_def WriteCodeFile_requests
      write_replicator_codes_requests bundle_files_def attempt_def)

lemma length_bundle_files:
  "length (bundle_files defs dir name B) = 7 + 3 * length (ReplicatorCodes B)"
  by (simp add: bundle_files_def replicator_files_def length_concat comp_def sum_list_triv)

section \<open>Saving the manifest\<close>

lemma UE_LOG_frame [simp]:
  "directories (UE_LOG v l w) = directories w"
  "write_denied (UE_LOG v l w) = write_denied w"
  "mkdir_denied (UE_LOG v l w) = mkdir_denied w"
  "requests (UE_LOG v l w) = requests w"
  "files (UE_LOG v l w) = files w"
  by (simp_all add: UE_LOG_def)

lemma Ensure_frame [simp]:
  "write_denied (EnsureReplicatorGeneratedIntermediateDir defs w) = write_denied w"
  "mkdir_denied (EnsureReplicatorGeneratedIntermediateDir defs w) = mkdir_denied w"
  by (simp_all add: EnsureReplicatorGeneratedIntermediateDir_def MakeDirectory_def)

lemma Ensure_directories:
  "directories (EnsureReplicatorGeneratedIntermediateDir defs w) =
     dirs_after_ensure defs (directories w) (mkdir_denied w)"
  by (simp add: EnsureReplicatorGeneratedIntermediateDir_def MakeDirectory_def DirectoryExists_def
      dirs_after_ensure_def)

lemma manifest_dir_ready_lists:
  "manifest_dir_ready defs w =
     (GetPath (GenManager_GeneratedManifestFilePath defs) \<in>
        set (dirs_after_ensure defs (directories w) (mkdir_denied w)))"
  by (simp add: manifest_dir_ready_def DirectoryExists_def Ensure_directories)

lemma Ensure_requests:
  "requests (EnsureReplicatorGeneratedIntermediateDir defs w) =
     requests w @
     (if GenManager_IntermediateDir defs \<in> set (directories w) then []
      else [MakeDirRequest (GenManager_IntermediateDir defs)
              (GenManager_IntermediateDir defs \<notin> set (mkdir_denied w))])"
  by (simp add: EnsureReplicatorGeneratedIntermediateDir_def MakeDirectory_def DirectoryExists_def)

lemma SaveGeneratedManifest_no_dir:
  "\<not> DirectoryExists (GetPath Filename) w \<Longrightarrow>
   SaveGeneratedManifest Manifest Filename Message w =
     (False, ''Unable to find the directory of GeneratedManifest: '' @ Filename, w)"
  by (simp add: SaveGeneratedManifest_def)

lemma SaveGeneratedManifest_verdict:
  "DirectoryExists (GetPath Filename) w \<Longrightarrow>
   fst (SaveGeneratedManifest Manifest Filename Message w) = (Filename \<in> set (write_denied w))"
  by (simp add: SaveGeneratedManifest_def SaveStringToFile_def Let_def)

lemma GetPath_example: "GetPath ''Intermediate/GeneratedManifest.json'' = ''Intermediate''"
  by (simp add: GetPath_def is_slash_def)

text \<open>
  Claim C2: saving returns ok exactly when the manifest file is written, an error when
  the directory is missing, and an error when the write fails. The code does the first
  and the last the other way round. Here the directory \<open>Intermediate\<close> exists and
  nothing is denied: the file is written, and the function returns false with the
  message of a failed save. (With the write denied it returns true,
  \<open>SaveGeneratedManifest_verdict\<close>; with the directory missing it returns false, as
  claimed, \<open>SaveGeneratedManifest_no_dir\<close>.)
\<close>

theorem SaveGeneratedManifest_written_returns_false:
  "SaveGeneratedManifest example_manifest ''Intermediate/GeneratedManifest.json'' [] empty_world =
     (False, ''Unable to save GeneratedManifest: Intermediate/GeneratedManifest.json'',
      empty_world\<lparr>
        files := [(''Intermediate/GeneratedManifest.json'',
                   JsonText [(''GeneratedTime'', JsonNumber 1664403200),
                             (''ProtoPackageName'', JsonString ''channeldpb'')])],
        requests := [SaveRequest ''Intermediate/GeneratedManifest.json''
                   (JsonText [(''GeneratedTime'', JsonNumber 1664403200),
                             (''ProtoPackageName'', JsonString ''channeldpb'')]) True]\<rparr>)"
  by (simp add: SaveGeneratedManifest_def SaveStringToFile_def DirectoryExists_def
      GetPath_example empty_world_def example_manifest_def ToUnixTimestamp_def
      cpp_div_def int64_def UnixEpochTicks_def TicksPerSecond_def signed_take_bit_int_eq_self
      Let_def)

lemma SaveGeneratedManifest_Default_verdict:
  "fst (SaveGeneratedManifest_Default defs Manifest Message w) =
     (manifest_dir_ready defs w \<and> GenManager_GeneratedManifestFilePath defs \<in> set (write_denied w))"
  by (simp add: SaveGeneratedManifest_Default_def SaveGeneratedManifest_def manifest_dir_ready_def
      SaveStringToFile_def Let_def)

lemma SaveGeneratedManifest_Default_Message:
  "fst (snd (SaveGeneratedManifest_Default defs Manifest Message w)) =
     (if \<not> manifest_dir_ready defs w
      then ''Unable to find the directory of GeneratedManifest: '' @ GenManager_GeneratedManifestFilePath defs
      else if GenManager_GeneratedManifestFilePath defs \<in> set (write_denied w) then Message
      else ''Unable to save GeneratedManifest: '' @ GenManager_GeneratedManifestFilePath defs)"
  by (simp add: SaveGeneratedManifest_Default_def SaveGeneratedManifest_def manifest_dir_ready_def
      SaveStringToFile_def Let_def)

lemma SaveGeneratedManifest_Default_requests:
  "requests (snd (snd (SaveGeneratedManifest_Default defs Manifest Message w))) =
     requests w @ manifest_requests defs Manifest w"
  by (simp add: SaveGeneratedManifest_Default_def SaveGeneratedManifest_def manifest_dir_ready_def
      SaveStringToFile_def Let_def manifest_requests_def manifest_text_def
      Ensure_requests DirectoryExists_def)

lemma manifest_requests_lists:
  "manifest_requests defs M w =
     (if GenManager_IntermediateDir defs \<in> set (directories w) then []
      else [MakeDirRequest (GenManager_IntermediateDir defs)
              (GenManager_IntermediateDir defs \<notin> set (mkdir_denied w))]) @
     (if GetPath (GenManager_GeneratedManifestFilePath defs) \<in>
           set (dirs_after_ensure defs (directories w) (mkdir_denied w))
      then [SaveRequest (GenManager_GeneratedManifestFilePath defs) (manifest_text M)
              (GenManager_GeneratedManifestFilePath defs \<notin> set (write_denied w))]
      else [])"
  by (simp add: manifest_requests_def manifest_dir_ready_lists DirectoryExists_def)

section \<open>A generation run\<close>

lemma GeneratedReplicators_Message_verdict:
  "fst (GeneratedReplicators_Message defs e gen cls pre m w) =
     (\<not> (manifest_dir_ready defs w \<and> GenManager_GeneratedManifestFilePath defs \<in> set (write_denied w)))"
  by (simp add: GeneratedReplicators_Message_def Let_def split_def
      SaveGeneratedManifest_Default_verdict manifest_dir_ready_lists)

lemma GeneratedReplicators_Message_Message:
  "fst (snd (GeneratedReplicators_Message defs e gen cls pre m w)) =
     (if \<not> manifest_dir_ready defs w
      then ''Unable to find the directory of GeneratedManifest: '' @ GenManager_GeneratedManifestFilePath defs
      else if GenManager_GeneratedManifestFilePath defs \<in> set (write_denied w) then []
      else ''Unable to save GeneratedManifest: '' @ GenManager_GeneratedManifestFilePath defs)"
  by (simp add: GeneratedReplicators_Message_def Let_def split_def
      SaveGeneratedManifest_Default_verdict SaveGeneratedManifest_Default_Message
      manifest_dir_ready_lists)

lemma GeneratedReplicators_Message_requests:
  "requests (snd (snd (snd (GeneratedReplicators_Message defs e gen cls pre m w)))) =
     requests w @ map (attempt w) (run_files defs e gen cls pre m) @
     manifest_requests defs (run_manifest defs e) w"
  by (simp add: GeneratedReplicators_Message_def Let_def split_def
      SaveGeneratedManifest_Default_requests write_bundle_requests manifest_requests_lists
      GetReplicatorStorageDir_after_module GetDefaultModuleName_def
      GetDefaultModuleDir_after_storage GetDefaultModuleDir_again attempt_def
      run_files_def run_bundle_def run_manifest_def)

lemma GeneratedReplicators_fst:
  "fst (GeneratedReplicators defs e gen cls pre m w) =
     fst (GeneratedReplicators_Message defs e gen cls pre m w)"
  by (simp add: GeneratedReplicators_def split_def Let_def)

lemma storage_dir_example:
  "fst (GetReplicatorStorageDir example_defs example_engine example_manager) =
     ''Source/Game/ChanneldGenerated''"
  by (simp add: GetReplicatorStorageDir_def GetDefaultModuleDir_def example_defs_def
      example_engine_def example_manager_def path_append_def is_slash_def Let_def)

lemma module_dir_example:
  "fst (GetDefaultModuleDir example_engine example_manager) = ''Source/Game''"
  by (simp add: GetDefaultModuleDir_def example_engine_def example_manager_def Let_def)

lemma ready_example: "manifest_dir_ready example_defs empty_world"
  "manifest_dir_ready example_defs denied_world"
  by (simp_all add: manifest_dir_ready_lists dirs_after_ensure_def example_defs_def
      empty_world_def denied_world_def GetPath_example)

text \<open>
  Claim C1, as amended. The verdict of a run does not depend on the generator, so not
  on whether assembly succeeded, in any state of the file system. When the directory of
  the manifest exists at the time of saving, the run returns success exactly when the
  manifest file is written, and failure exactly when that write fails.
\<close>

theorem GeneratedReplicators_verdict:
  "fst (GeneratedReplicators defs e gen' cls pre m w) =
     fst (GeneratedReplicators defs e gen cls pre m w) \<and>
   (manifest_dir_ready defs w \<longrightarrow>
      fst (GeneratedReplicators defs e gen cls pre m w) =
        (GenManager_GeneratedManifestFilePath defs \<notin> set (write_denied w)))"
  by (simp add: GeneratedReplicators_fst GeneratedReplicators_Message_verdict)

text \<open>
  Two runs of claim C1's theorem. Where the directory exists and nothing is denied, the
  run succeeds with the generator that succeeds and with the one that fails. Where the
  directory is missing and cannot be made, the two generators still get one verdict.
\<close>

theorem GeneratedReplicators_verdict_witness:
  "manifest_dir_ready example_defs empty_world \<and>
   fst (GeneratedReplicators example_defs example_engine example_generate [class_Foo] []
          example_manager empty_world) \<and>
   fst (GeneratedReplicators example_defs example_engine failing_generate [class_Foo] []
          example_manager empty_world) \<and>
   \<not> manifest_dir_ready example_defs dirless_world \<and>
   fst (GeneratedReplicators example_defs example_engine failing_generate [class_Foo] []
          example_manager dirless_world) =
     fst (GeneratedReplicators example_defs example_engine example_generate [class_Foo] []
            example_manager dirless_world)"
proof -
  have h: "manifest_dir_ready example_defs empty_world" by (rule ready_example)
  have n: "\<not> manifest_dir_ready example_defs dirless_world"
    by (simp add: manifest_dir_ready_lists dirs_after_ensure_def example_defs_def
        dirless_world_def GetPath_example)
  have w: "GenManager_GeneratedManifestFilePath example_defs \<notin> set (write_denied empty_world)"
    by (simp add: example_defs_def empty_world_def)
  from GeneratedReplicators_verdict [where defs = example_defs and e = example_engine
      and gen = example_generate and gen' = failing_generate and cls = "[class_Foo]"
      and pre = "[]" and m = example_manager and w = empty_world] h w
  have a: "fst (GeneratedReplicators example_defs example_engine example_generate [class_Foo] []
          example_manager empty_world) \<and>
   fst (GeneratedReplicators example_defs example_engine failing_generate [class_Foo] []
          example_manager empty_world)"
    by simp
  from GeneratedReplicators_verdict [where defs = example_defs and e = example_engine
      and gen = example_generate and gen' = failing_generate and cls = "[class_Foo]"
      and pre = "[]" and m = example_manager and w = dirless_world]
  have b: "fst (GeneratedReplicators example_defs example_engine failing_generate [class_Foo] []
          example_manager dirless_world) =
     fst (GeneratedReplicators example_defs example_engine example_generate [class_Foo] []
            example_manager dirless_world)"
    by (rule conjunct1)
  from h a n b show ?thesis by simp
qed

text \<open>
  Claim C1 as stated fails: the claim has a run fail whenever assembly fails. Here the
  generator returns false, the manifest is saved, and the run returns true.
\<close>

theorem GeneratedReplicators_ignores_failed_assembly:
  "\<not> fst (failing_generate [class_Foo] ''Source/Game'' ''channeldpb'' ''channeldpb'' empty_bundle) \<and>
   fst (GeneratedReplicators example_defs example_engine failing_generate [class_Foo] []
          example_manager empty_world)"
  by (simp add: GeneratedReplicators_fst GeneratedReplicators_Message_verdict ready_example
      failing_generate_def example_defs_def empty_world_def)

text \<open>
  Claim C7, as amended. A run requests the write of every file of the bundle, in the
  order of the bundle and whatever the earlier writes returned; the requests of the
  manifest save follow the last of them. No write of the write phase touches the
  message: the message a run ends with is the one saving the manifest alone would
  leave.
\<close>

theorem GeneratedReplicators_write_phase:
  "requests (snd (snd (snd (GeneratedReplicators_Message defs e gen cls pre m w)))) =
     requests w @ map (attempt w) (run_files defs e gen cls pre m) @
     manifest_requests defs (run_manifest defs e) w \<and>
   fst (write_bundle defs dir name B Message w) = Message \<and>
   fst (snd (GeneratedReplicators_Message defs e gen cls pre m w)) =
     fst (snd (SaveGeneratedManifest_Default defs (run_manifest defs e) [] w))"
  by (simp add: GeneratedReplicators_Message_requests GeneratedReplicators_Message_Message
      SaveGeneratedManifest_Default_Message)

lemma run_files_example:
  "run_files example_defs example_engine example_generate [class_Foo] [] example_manager =
     [(''Source/Game/ChanneldGenerated/ChanneldGeneratedTypes.h'', ''// types''),
      (''Source/Game/ChanneldGenerated/ChanneldGeneratedTypes.cpp'', []),
      (''Source/Game/ChanneldGenerated/ChanneldReplicatorRegistration.h'', []),
      (''Source/Game/ChanneldGenerated/ChanneldGlobalStruct.h'', []),
      (''Source/Game/ChanneldGenerated/unreal_global_struct.proto'', []),
      (''Source/Game/ChanneldGenerated/ChannelData_Game.h'', []),
      (''Source/Game/ChanneldGenerated/ChannelData_Game.proto'', [])]"
  by (simp add: run_files_def run_bundle_def bundle_files_def storage_dir_example
      module_dir_example example_generate_def empty_bundle_def)
     (simp add: example_defs_def example_engine_def path_append_def is_slash_def
      GetCleanFilename_def)

lemma manifest_requests_example:
  "manifest_requests example_defs (run_manifest example_defs example_engine) denied_world =
     [SaveRequest ''Intermediate/GeneratedManifest.json''
        (JsonText [(''GeneratedTime'', JsonNumber 1664403200),
                   (''ProtoPackageName'', JsonString ''channeldpb'')]) False]"
  by (simp add: manifest_requests_def ready_example DirectoryExists_def manifest_text_def
      run_manifest_def GetDefaultProtoPackageName_def)
     (simp add: example_defs_def example_engine_def denied_world_def empty_world_def
      ToUnixTimestamp_def cpp_div_def int64_def UnixEpochTicks_def TicksPerSecond_def
      signed_take_bit_int_eq_self)

text \<open>
  A run of claim C7's theorem: the first file and the manifest cannot be written; the
  six files after the first are requested all the same, the manifest last.
\<close>

theorem GeneratedReplicators_write_phase_witness:
  "requests (snd (snd (snd (GeneratedReplicators_Message example_defs example_engine
       example_generate [class_Foo] [] example_manager denied_world)))) =
     [SaveRequest ''Source/Game/ChanneldGenerated/ChanneldGeneratedTypes.h''
        (PlainText ''// types'') False,
      SaveRequest ''Source/Game/ChanneldGenerated/ChanneldGeneratedTypes.cpp'' (PlainText []) True,
      SaveRequest ''Source/Game/ChanneldGenerated/ChanneldReplicatorRegistration.h''
        (PlainText []) True,
      SaveRequest ''Source/Game/ChanneldGenerated/ChanneldGlobalStruct.h'' (PlainText []) True,
      SaveRequest ''Source/Game/ChanneldGenerated/unreal_global_struct.proto'' (PlainText []) True,
      SaveRequest ''Source/Game/ChanneldGenerated/ChannelData_Game.h'' (PlainText []) True,
      SaveRequest ''Source/Game/ChanneldGenerated/ChannelData_Game.proto'' (PlainText []) True,
      SaveRequest ''Intermediate/GeneratedManifest.json''
        (JsonText [(''GeneratedTime'', JsonNumber 1664403200),
                   (''ProtoPackageName'', JsonString ''channeldpb'')]) False]"
  using GeneratedReplicators_write_phase [of example_defs example_engine example_generate
      "[class_Foo]" "[]" example_manager denied_world "[]" "[]" empty_bundle "[]"]
  by (simp add: run_files_example manifest_requests_example attempt_def)
     (simp add: denied_world_def empty_world_def)

text \<open>
  Claim C7 as stated fails: the claim has the first write error recorded in the message
  of the run. Here the write of the first file fails, and the message is empty after
  the write phase and at the end of the run (which returns false, the manifest write
  having failed too).
\<close>

theorem GeneratedReplicators_write_error_not_recorded:
  "fst (SaveStringToFile (PlainText ''// types'')
          ''Source/Game/ChanneldGenerated/ChanneldGeneratedTypes.h'' denied_world) = False \<and>
   fst (write_bundle example_defs ''Source/Game/ChanneldGenerated'' ''Game''
          (empty_bundle\<lparr>TypeDefinitionsHeadCode := ''// types''\<rparr>) [] denied_world) = [] \<and>
   GeneratedReplicators_Message example_defs example_engine example_generate [class_Foo] []
       example_manager denied_world =
     (False, [],
      snd (snd (GeneratedReplicators_Message example_defs example_engine example_generate
                  [class_Foo] [] example_manager denied_world)))"
proof -
  let ?r = "GeneratedReplicators_Message example_defs example_engine example_generate
      [class_Foo] [] example_manager denied_world"
  have d: "GenManager_GeneratedManifestFilePath example_defs \<in> set (write_denied denied_world)"
    by (simp add: example_defs_def denied_world_def)
  have 1: "fst ?r = False"
    by (simp add: GeneratedReplicators_Message_verdict ready_example d)
  have 2: "fst (snd ?r) = []"
    by (simp add: GeneratedReplicators_Message_Message ready_example d)
  have 3: "fst (SaveStringToFile (PlainText ''// types'')
          ''Source/Game/ChanneldGenerated/ChanneldGeneratedTypes.h'' denied_world) = False"
    by (simp add: SaveStringToFile_def denied_world_def)
  have "?r = (fst ?r, fst (snd ?r), snd (snd ?r))" by simp
  with 1 2 have "?r = (False, [], snd (snd ?r))" by simp
  with 3 show ?thesis by simp
qed

section \<open>Removing what was generated\<close>

lemma delete_filter: "AList.delete k al = filter (\<lambda>kv. fst kv \<noteq> k) al"
  by (induction al) (auto simp: AList.delete_eq)

text \<open>
  Claim C9. Removing the replicator of a class name requests the deletion of the five
  files named after it, these and no other, whether they are there or not: the
  function has no failure, it leaves every other file and the directories as they
  were, and logs nothing.
\<close>

theorem RemoveGeneratedReplicator_deletes:
  "requests (RemoveGeneratedReplicator defs ClassName w) =
     requests w @ map DeleteRequest (replicator_file_names defs ClassName) \<and>
   length (replicator_file_names defs ClassName) = 5 \<and>
   files (RemoveGeneratedReplicator defs ClassName w) =
     filter (\<lambda>kv. fst kv \<notin> set (replicator_file_names defs ClassName)) (files w) \<and>
   directories (RemoveGeneratedReplicator defs ClassName w) = directories w \<and>
   log_lines (RemoveGeneratedReplicator defs ClassName w) = log_lines w"
  by (simp add: RemoveGeneratedReplicator_def DeleteFile_def replicator_file_names_def
      delete_filter conj_commute conj_left_commute)

text \<open>
  Claim C9's theorem at \<open>Foo\<close>, where one of the five files is there and four are not.
\<close>

theorem RemoveGeneratedReplicator_deletes_witness:
  "requests (RemoveGeneratedReplicator example_defs ''Foo''
      (empty_world\<lparr>files := [(''Foo.proto'', PlainText []), (''Bar.proto'', PlainText [])]\<rparr>)) =
     [DeleteRequest ''ChanneldFooReplicator.cpp'', DeleteRequest ''ChanneldFooReplicator.h'',
      DeleteRequest ''Foo.proto'', DeleteRequest ''Foo.pb.h'', DeleteRequest ''Foo.pb.cpp''] \<and>
   files (RemoveGeneratedReplicator example_defs ''Foo''
      (empty_world\<lparr>files := [(''Foo.proto'', PlainText []), (''Bar.proto'', PlainText [])]\<rparr>)) =
     [(''Bar.proto'', PlainText [])]"
  using RemoveGeneratedReplicator_deletes [of example_defs "''Foo''"
      "empty_world\<lparr>files := [(''Foo.proto'', PlainText []), (''Bar.proto'', PlainText [])]\<rparr>"]
  by (simp add: replicator_file_names_def example_defs_def empty_world_def)

section \<open>Enumerating what was generated\<close>

lemma capture_replicator_head_iff:
  "capture_replicator_head word f = Some n \<longleftrightarrow>
     f = ''Channeld'' @ n @ ''Replicator.h'' \<and> n \<noteq> [] \<and> list_all word n"
proof
  assume h: "capture_replicator_head word f = Some n"
  let ?mid = "take (length f - length ''Channeld'' - length ''Replicator.h'') (drop (length ''Channeld'') f)"
  from h have c: "take (length ''Channeld'') f = ''Channeld''"
      "drop (length ''Channeld'' + length ?mid) f = ''Replicator.h''"
      "?mid \<noteq> []" "list_all word ?mid" "n = ?mid"
    by (auto simp: capture_replicator_head_def Let_def split: if_splits)
  have "f = take (length ''Channeld'') f @ drop (length ''Channeld'') f" by simp
  also have "drop (length ''Channeld'') f = take (length ?mid) (drop (length ''Channeld'') f) @
      drop (length ?mid) (drop (length ''Channeld'') f)" by (simp only: append_take_drop_id)
  also have "take (length ?mid) (drop (length ''Channeld'') f) = ?mid" by simp
  also have "drop (length ?mid) (drop (length ''Channeld'') f) = ''Replicator.h''"
    using c(2) by (simp add: add.commute)
  finally have "f = ''Channeld'' @ ?mid @ ''Replicator.h''" using c(1) by simp
  with c show "f = ''Channeld'' @ n @ ''Replicator.h'' \<and> n \<noteq> [] \<and> list_all word n" by simp
next
  assume "f = ''Channeld'' @ n @ ''Replicator.h'' \<and> n \<noteq> [] \<and> list_all word n"
  then show "capture_replicator_head word f = Some n"
    by (simp add: capture_replicator_head_def Let_def)
qed

lemma collect_captures_map_filter:
  "collect_captures word fs Result = Result @ List.map_filter (capture_replicator_head word) fs"
  by (induction fs arbitrary: Result) (simp_all add: List.map_filter_simps split: option.split)

lemma has_extension_append: "has_extension ext (pre @ ext)"
  by (simp add: has_extension_def)

lemma FindFiles_set:
  "dir \<noteq> [] \<Longrightarrow>
   set (FindFiles dir ext w) =
     {GetCleanFilename p | p. p \<in> fst ` set (files w) \<and> GetPath p = dir \<and>
        has_extension (dotted ext) (GetCleanFilename p)}"
  by (auto simp: FindFiles_def)

lemma dotted_h: "dotted ''.h'' = ''.h''"
  by (simp add: dotted_def)

lemma set_map_filter: "set (List.map_filter f xs) = {y. \<exists>x \<in> set xs. f x = Some y}"
  by (induction xs) (auto simp: List.map_filter_simps split: option.splits)

text \<open>
  Claim C10. With \<^verbatim>\<open>.h\<close> as the extension of headers and a storage directory that
  has a name, the enumeration returns the
  captures of the header files of the storage directory, in their order; a file name
  has a capture exactly when it is \<^verbatim>\<open>Channeld<Name>Replicator.h\<close> for a non-empty
  \<open>Name\<close> of word characters, and the capture is then \<open>Name\<close>. So a name is returned
  exactly when a file of that form is in the storage directory.
\<close>

theorem GetGeneratedTargetClasses_template:
  assumes ext: "CodeGen_HeadFileExtension defs = ''.h''"
    and dir: "fst (GetReplicatorStorageDir defs e m) \<noteq> []"
  shows "fst (GetGeneratedTargetClasses defs e m w) =
           List.map_filter (capture_replicator_head (word_char e))
             (FindFiles (fst (GetReplicatorStorageDir defs e m)) ''.h'' w) \<and>
         (\<forall>f n. capture_replicator_head (word_char e) f = Some n \<longleftrightarrow>
            f = ''Channeld'' @ n @ ''Replicator.h'' \<and> n \<noteq> [] \<and> list_all (word_char e) n) \<and>
         (\<forall>n. n \<in> set (fst (GetGeneratedTargetClasses defs e m w)) \<longleftrightarrow>
            n \<noteq> [] \<and> list_all (word_char e) n \<and>
            (\<exists>p \<in> fst ` set (files w).
               GetPath p = fst (GetReplicatorStorageDir defs e m) \<and>
               GetCleanFilename p = ''Channeld'' @ n @ ''Replicator.h''))"
proof -
  let ?dir = "fst (GetReplicatorStorageDir defs e m)"
  let ?cap = "capture_replicator_head (word_char e)"
  have eq: "fst (GetGeneratedTargetClasses defs e m w) = List.map_filter ?cap (FindFiles ?dir ''.h'' w)"
    by (simp add: GetGeneratedTargetClasses_def split_def Let_def ext collect_captures_map_filter)
  have iff: "\<forall>f n. ?cap f = Some n \<longleftrightarrow>
      f = ''Channeld'' @ n @ ''Replicator.h'' \<and> n \<noteq> [] \<and> list_all (word_char e) n"
    by (simp add: capture_replicator_head_iff)
  have ext_ok: "has_extension ''.h'' (''Channeld'' @ n @ ''Replicator.h'')" for n
    using has_extension_append [of "''.h''" "''Channeld'' @ n @ ''Replicator''"] by simp
  have mem: "n \<in> set (List.map_filter ?cap (FindFiles ?dir ''.h'' w)) \<longleftrightarrow>
      n \<noteq> [] \<and> list_all (word_char e) n \<and>
      (\<exists>p \<in> fst ` set (files w). GetPath p = ?dir \<and>
         GetCleanFilename p = ''Channeld'' @ n @ ''Replicator.h'')" for n
  proof
    assume "n \<in> set (List.map_filter ?cap (FindFiles ?dir ''.h'' w))"
    then obtain f where f: "f \<in> set (FindFiles ?dir ''.h'' w)" "?cap f = Some n"
      by (auto simp: set_map_filter)
    from f(2) have form: "f = ''Channeld'' @ n @ ''Replicator.h''" "n \<noteq> []" "list_all (word_char e) n"
      by (simp_all add: capture_replicator_head_iff)
    from f(1) obtain p where "p \<in> fst ` set (files w)" "GetPath p = ?dir" "GetCleanFilename p = f"
      by (auto simp: FindFiles_set [OF dir])
    with form show "n \<noteq> [] \<and> list_all (word_char e) n \<and>
      (\<exists>p \<in> fst ` set (files w). GetPath p = ?dir \<and>
         GetCleanFilename p = ''Channeld'' @ n @ ''Replicator.h'')" by auto
  next
    assume h: "n \<noteq> [] \<and> list_all (word_char e) n \<and>
      (\<exists>p \<in> fst ` set (files w). GetPath p = ?dir \<and>
         GetCleanFilename p = ''Channeld'' @ n @ ''Replicator.h'')"
    then obtain p where p: "p \<in> fst ` set (files w)" "GetPath p = ?dir"
        "GetCleanFilename p = ''Channeld'' @ n @ ''Replicator.h''" by auto
    have e1: "has_extension ''.h'' (GetCleanFilename p)"
      using ext_ok [of n] p(3) by simp
    have "GetCleanFilename p \<in> set (FindFiles ?dir ''.h'' w)"
      unfolding FindFiles_set [OF dir] dotted_h using p(1,2) e1 by blast
    moreover have "?cap (GetCleanFilename p) = Some n"
      using h p(3) by (simp add: capture_replicator_head_iff)
    ultimately show "n \<in> set (List.map_filter ?cap (FindFiles ?dir ''.h'' w))"
      by (auto simp: set_map_filter)
  qed
  from eq iff mem show ?thesis by simp
qed

lemma FindFiles_example:
  "FindFiles ''Source/Game/ChanneldGenerated'' ''.h'' listing_world =
     [''ChanneldFooReplicator.h'', ''ChanneldGeneratedTypes.h'']"
  by (simp add: FindFiles_def listing_world_def empty_world_def GetPath_def GetCleanFilename_def
      is_slash_def has_extension_def lower_code_def dotted_def)

lemma capture_example:
  "capture_replicator_head ascii_word_char ''ChanneldFooReplicator.h'' = Some ''Foo''"
  "capture_replicator_head ascii_word_char ''ChanneldGeneratedTypes.h'' = None"
  by (simp_all add: capture_replicator_head_def ascii_word_char_def Let_def)

text \<open>
  Claim C10's theorem on a directory with a replicator header, another header and a
  schema file (and a replicator header elsewhere): \<open>Foo\<close> is returned, and nothing else.
\<close>

theorem GetGeneratedTargetClasses_template_witness:
  "CodeGen_HeadFileExtension example_defs = ''.h'' \<and>
   fst (GetReplicatorStorageDir example_defs example_engine example_manager) \<noteq> [] \<and>
   fst (GetGeneratedTargetClasses example_defs example_engine example_manager listing_world) =
     [''Foo'']"
proof -
  have h: "CodeGen_HeadFileExtension example_defs = ''.h''" by (simp add: example_defs_def)
  have w: "word_char example_engine = ascii_word_char" by (simp add: example_engine_def)
  have d: "fst (GetReplicatorStorageDir example_defs example_engine example_manager) \<noteq> []"
    by (simp add: storage_dir_example)
  from GetGeneratedTargetClasses_template [OF h d, of listing_world]
  have "fst (GetGeneratedTargetClasses example_defs example_engine example_manager listing_world) =
      List.map_filter (capture_replicator_head ascii_word_char)
        (FindFiles ''Source/Game/ChanneldGenerated'' ''.h'' listing_world)"
    by (simp only: w storage_dir_example)
  with h d show ?thesis
    by (simp add: FindFiles_example capture_example List.map_filter_simps)
qed

section \<open>Dates and the round trip of the manifest\<close>

lemma cpp_div_nonneg: "0 < b \<Longrightarrow> 0 \<le> a \<Longrightarrow> cpp_div a b = a div b"
  by (cases "a = 0") (simp_all add: cpp_div_def)

lemma cpp_div_seconds_nonneg:
  "0 \<le> a \<Longrightarrow> cpp_div a 10000000 = a div 10000000"
  by (simp add: cpp_div_nonneg)

lemma seconds_nonneg:
  fixes a :: int
  assumes "0 \<le> a"
  shows "0 \<le> cpp_div a TicksPerSecond * TicksPerSecond"
    and "cpp_div a TicksPerSecond * TicksPerSecond \<le> a"
    and "a - cpp_div a TicksPerSecond * TicksPerSecond < TicksPerSecond"
proof -
  have d: "a = a div 10000000 * 10000000 + a mod 10000000" by simp
  have m: "0 \<le> a mod 10000000" "a mod 10000000 < 10000000" by simp_all
  have q: "0 \<le> a div 10000000" using assms by (simp add: pos_imp_zdiv_nonneg_iff)
  note c = cpp_div_seconds_nonneg [OF assms]
  show "0 \<le> cpp_div a TicksPerSecond * TicksPerSecond"
    unfolding TicksPerSecond_def c using q by simp
  show "cpp_div a TicksPerSecond * TicksPerSecond \<le> a"
    unfolding TicksPerSecond_def c using d m by linarith
  show "a - cpp_div a TicksPerSecond * TicksPerSecond < TicksPerSecond"
    unfolding TicksPerSecond_def c using d m by linarith
qed

lemma cpp_div_minus: "cpp_div (- a) b = - cpp_div a b"
  by (simp add: cpp_div_def)

lemma seconds_neg:
  fixes a :: int
  assumes "a < 0"
  shows "a \<le> cpp_div a TicksPerSecond * TicksPerSecond"
    and "cpp_div a TicksPerSecond * TicksPerSecond \<le> 0"
    and "cpp_div a TicksPerSecond * TicksPerSecond - a < TicksPerSecond"
proof -
  have n: "0 \<le> - a" using assms by simp
  have c: "cpp_div a TicksPerSecond = - cpp_div (- a) TicksPerSecond"
    using cpp_div_minus [of "- a" TicksPerSecond] by simp
  show "a \<le> cpp_div a TicksPerSecond * TicksPerSecond"
    using seconds_nonneg(2) [OF n] by (simp add: c)
  show "cpp_div a TicksPerSecond * TicksPerSecond \<le> 0"
    using seconds_nonneg(1) [OF n] by (simp add: c)
  show "cpp_div a TicksPerSecond * TicksPerSecond - a < TicksPerSecond"
    using seconds_nonneg(3) [OF n] by (simp add: c)
qed

lemma cpp_div_seconds_again_nonneg:
  assumes "0 \<le> a"
  shows "cpp_div (cpp_div a TicksPerSecond * TicksPerSecond) TicksPerSecond = cpp_div a TicksPerSecond"
proof -
  have "cpp_div (cpp_div a TicksPerSecond * TicksPerSecond) TicksPerSecond =
      (cpp_div a TicksPerSecond * TicksPerSecond) div 10000000"
    using cpp_div_seconds_nonneg [OF seconds_nonneg(1) [OF assms]] by (simp add: TicksPerSecond_def)
  also have "\<dots> = cpp_div a TicksPerSecond"
    by (simp add: TicksPerSecond_def)
  finally show ?thesis .
qed

lemma cpp_div_seconds_again:
  "cpp_div (cpp_div a TicksPerSecond * TicksPerSecond) TicksPerSecond = cpp_div a TicksPerSecond"
proof (cases "0 \<le> a")
  case True
  then show ?thesis by (rule cpp_div_seconds_again_nonneg)
next
  case False
  then have n: "0 \<le> - a" by simp
  have c: "cpp_div a TicksPerSecond = - cpp_div (- a) TicksPerSecond"
    using cpp_div_minus [of "- a" TicksPerSecond] by simp
  have "cpp_div (cpp_div a TicksPerSecond * TicksPerSecond) TicksPerSecond =
      cpp_div (- (cpp_div (- a) TicksPerSecond * TicksPerSecond)) TicksPerSecond"
    by (simp add: c)
  also have "\<dots> = - cpp_div (cpp_div (- a) TicksPerSecond * TicksPerSecond) TicksPerSecond"
    by (rule cpp_div_minus)
  also have "\<dots> = - cpp_div (- a) TicksPerSecond"
    by (simp add: cpp_div_seconds_again_nonneg [OF n])
  finally show ?thesis by (simp add: c)
qed

lemma int64_id: "- (2 ^ 63) \<le> x \<Longrightarrow> x < 2 ^ 63 \<Longrightarrow> int64 x = x"
  by (simp add: int64_def signed_take_bit_int_eq_self)

lemma unix_roundtrip:
  assumes "unix_time_defined t"
  shows "FromUnixTimestamp (ToUnixTimestamp t) =
           UnixEpochTicks + cpp_div (t - UnixEpochTicks) TicksPerSecond * TicksPerSecond"
    and "ToUnixTimestamp (FromUnixTimestamp (ToUnixTimestamp t)) = ToUnixTimestamp t"
    and "\<bar>FromUnixTimestamp (ToUnixTimestamp t) - t\<bar> < TicksPerSecond"
proof -
  let ?a = "t - UnixEpochTicks"
  let ?q = "cpp_div ?a TicksPerSecond * TicksPerSecond"
  have E: "UnixEpochTicks = 621355968000000000" by (simp add: UnixEpochTicks_def)
  have r: "- (2 ^ 63) \<le> ?a" "?a < 2 ^ 63" "t < 2 ^ 63" "- (2 ^ 63) + 621355968000000000 \<le> t"
    using assms by (simp_all add: unix_time_defined_def E)
  have a: "int64 ?a = ?a" using r(1,2) by (rule int64_id)
  have between: "(0 \<le> ?q \<and> ?q \<le> ?a \<and> ?a - ?q < TicksPerSecond) \<or>
                 (?a \<le> ?q \<and> ?q \<le> 0 \<and> ?q - ?a < TicksPerSecond)"
    using seconds_nonneg [of ?a] seconds_neg [of ?a] by (cases "0 \<le> ?a") simp_all
  have q: "int64 ?q = ?q"
    using between r by (intro int64_id) linarith+
  have s: "int64 (UnixEpochTicks + ?q) = UnixEpochTicks + ?q"
    using between r by (intro int64_id) (simp_all add: E, linarith+)
  show f: "FromUnixTimestamp (ToUnixTimestamp t) = UnixEpochTicks + ?q"
    by (simp add: FromUnixTimestamp_def ToUnixTimestamp_def a q s)
  show "ToUnixTimestamp (FromUnixTimestamp (ToUnixTimestamp t)) = ToUnixTimestamp t"
    unfolding f by (simp add: ToUnixTimestamp_def a q cpp_div_seconds_again)
  show "\<bar>FromUnixTimestamp (ToUnixTimestamp t) - t\<bar> < TicksPerSecond"
    unfolding f using between by linarith
qed

lemma save_then_load_eq:
  assumes "DirectoryExists (GetPath Filename) w" and "Filename \<notin> set (write_denied w)"
  shows "save_then_load Manifest Filename Result uninit w =
     (True,
      Result\<lparr>GeneratedTime := FromUnixTimestamp (ToUnixTimestamp (GeneratedTime Manifest)),
        ProtoPackageName := ProtoPackageName Manifest\<rparr>,
      [],
      w\<lparr>files := AList.update Filename (manifest_text Manifest) (files w),
        requests := requests w @ [SaveRequest Filename (manifest_text Manifest) True]\<rparr>)"
  using assms
  by (simp add: save_then_load_def SaveGeneratedManifest_def SaveStringToFile_def Let_def
      LoadLatestGeneratedManifest_def LoadFileToString_def AList.update_conv'
      TryGetNumberField_def TryGetStringField_def manifest_text_def)

lemma FDateTime_range_defined:
  "0 \<le> t \<Longrightarrow> t \<le> 3155378975999999999 \<Longrightarrow> unix_time_defined t"
  by (simp add: unix_time_defined_def UnixEpochTicks_def)

text \<open>
  Claim C6. A manifest saved to a path whose directory exists, by a write that goes
  through, and loaded from the same path: loading succeeds without a warning, the
  package name is the saved one, and the time is the saved one up to the second (the
  same unix timestamp, less than a second apart). What the result held before and the
  uninitialised local play no part.
\<close>

theorem save_then_load_roundtrip:
  assumes "DirectoryExists (GetPath Filename) w"
    and "Filename \<notin> set (write_denied w)"
    and "unix_time_defined (GeneratedTime Manifest)"
  shows "fst (save_then_load Manifest Filename Result uninit w) \<and>
     ProtoPackageName (fst (snd (save_then_load Manifest Filename Result uninit w))) =
       ProtoPackageName Manifest \<and>
     ToUnixTimestamp (GeneratedTime (fst (snd (save_then_load Manifest Filename Result uninit w)))) =
       ToUnixTimestamp (GeneratedTime Manifest) \<and>
     \<bar>GeneratedTime (fst (snd (save_then_load Manifest Filename Result uninit w))) -
       GeneratedTime Manifest\<bar> < TicksPerSecond \<and>
     log_lines (snd (snd (snd (save_then_load Manifest Filename Result uninit w)))) = log_lines w"
  using unix_roundtrip(2,3) [OF assms(3)]
  by (simp add: save_then_load_eq [OF assms(1,2)])

text \<open>
  Claim C6's theorem on the example manifest, whose time is a whole second: it comes
  back as it was.
\<close>

theorem save_then_load_roundtrip_witness:
  "DirectoryExists (GetPath ''Intermediate/GeneratedManifest.json'') empty_world \<and>
   ''Intermediate/GeneratedManifest.json'' \<notin> set (write_denied empty_world) \<and>
   unix_time_defined (GeneratedTime example_manifest) \<and>
   fst (save_then_load example_manifest ''Intermediate/GeneratedManifest.json''
          \<lparr>GeneratedTime = 0, ProtoPackageName = ''old''\<rparr> 7 empty_world) \<and>
   ProtoPackageName (fst (snd (save_then_load example_manifest
          ''Intermediate/GeneratedManifest.json''
          \<lparr>GeneratedTime = 0, ProtoPackageName = ''old''\<rparr> 7 empty_world))) = ''channeldpb'' \<and>
   ToUnixTimestamp (GeneratedTime (fst (snd (save_then_load example_manifest
          ''Intermediate/GeneratedManifest.json''
          \<lparr>GeneratedTime = 0, ProtoPackageName = ''old''\<rparr> 7 empty_world)))) = 1664403200"
proof -
  have d: "DirectoryExists (GetPath ''Intermediate/GeneratedManifest.json'') empty_world"
    by (simp add: GetPath_example DirectoryExists_def empty_world_def)
  have n: "''Intermediate/GeneratedManifest.json'' \<notin> set (write_denied empty_world)"
    by (simp add: empty_world_def)
  have u: "unix_time_defined (GeneratedTime example_manifest)"
    by (simp add: unix_time_defined_def example_manifest_def UnixEpochTicks_def)
  have t: "ToUnixTimestamp (GeneratedTime example_manifest) = 1664403200"
    by (simp add: example_manifest_def ToUnixTimestamp_def cpp_div_def int64_def
        UnixEpochTicks_def TicksPerSecond_def signed_take_bit_int_eq_self)
  have p: "ProtoPackageName example_manifest = ''channeldpb''"
    by (simp add: example_manifest_def)
  from save_then_load_roundtrip [OF d n u, of "\<lparr>GeneratedTime = 0, ProtoPackageName = ''old''\<rparr>" 7]
    d n u t p
  show ?thesis by simp
qed

section \<open>Loading the manifest\<close>

lemma Load_not_found:
  "map_of (files w) Filename = None \<Longrightarrow>
   LoadLatestGeneratedManifest Filename Result Message uninit w =
     (False, Result, ''Unable to load GeneratedManifest: '' @ Filename, w)"
  by (simp add: LoadLatestGeneratedManifest_def LoadFileToString_def)

lemma Load_malformed:
  "map_of (files w) Filename = Some (PlainText s) \<Longrightarrow>
   LoadLatestGeneratedManifest Filename Result Message uninit w =
     (False, Result, ''GeneratedManifest is malformed: '' @ Filename, w)"
  by (simp add: LoadLatestGeneratedManifest_def LoadFileToString_def)

lemma Load_parsed:
  "map_of (files w) Filename = Some (JsonText obj) \<Longrightarrow>
   fst (LoadLatestGeneratedManifest Filename Result Message uninit w) \<and>
   fst (snd (snd (LoadLatestGeneratedManifest Filename Result Message uninit w))) = Message"
  by (simp add: LoadLatestGeneratedManifest_def LoadFileToString_def Let_def split_def)

lemma Load_missing_time:
  "map_of (files w) Filename = Some (JsonText obj) \<Longrightarrow> map_of obj ''GeneratedTime'' = None \<Longrightarrow>
   GeneratedTime (fst (snd (LoadLatestGeneratedManifest Filename Result Message uninit w))) =
     FromUnixTimestamp uninit"
  by (simp add: LoadLatestGeneratedManifest_def LoadFileToString_def Let_def split_def
      TryGetNumberField_def split: option.split)

lemma Load_missing_package:
  "map_of (files w) Filename = Some (JsonText obj) \<Longrightarrow> map_of obj ''ProtoPackageName'' = None \<Longrightarrow>
   ProtoPackageName (fst (snd (LoadLatestGeneratedManifest Filename Result Message uninit w))) =
     ProtoPackageName Result"
  by (simp add: LoadLatestGeneratedManifest_def LoadFileToString_def Let_def split_def
      TryGetStringField_def split: option.split)

text \<open>
  Claim C5: a missing file and unparsable JSON are errors that name the path
  (\<open>Load_not_found\<close>, \<open>Load_malformed\<close>), and a manifest that parses loads with a warning
  for each missing field (\<open>Load_parsed\<close>). The claim has a missing field degrade to a
  default value. For the time that is not what the code does: the local it converts is
  never initialised, so the time of the result is the unix time that happens to stand
  there (\<open>Load_missing_time\<close>). Here a manifest without \<^verbatim>\<open>GeneratedTime\<close> is loaded twice,
  with \<open>0\<close> and with \<open>86400\<close> in the local, and the two results differ by a day.
\<close>

theorem LoadLatestGeneratedManifest_missing_time:
  "LoadLatestGeneratedManifest ''Intermediate/GeneratedManifest.json''
     \<lparr>GeneratedTime = 0, ProtoPackageName = []\<rparr> [] 0 world_without_time =
     (True, \<lparr>GeneratedTime = 621355968000000000, ProtoPackageName = ''channeldpb''\<rparr>, [],
      UE_LOG Warning (''Unable to find field '' @ quoted ''GeneratedTime'') world_without_time) \<and>
   LoadLatestGeneratedManifest ''Intermediate/GeneratedManifest.json''
     \<lparr>GeneratedTime = 0, ProtoPackageName = []\<rparr> [] 86400 world_without_time =
     (True, \<lparr>GeneratedTime = 621356832000000000, ProtoPackageName = ''channeldpb''\<rparr>, [],
      UE_LOG Warning (''Unable to find field '' @ quoted ''GeneratedTime'') world_without_time)"
  by (simp add: LoadLatestGeneratedManifest_def LoadFileToString_def Let_def
      TryGetNumberField_def TryGetStringField_def world_without_time_def empty_world_def
      FromUnixTimestamp_def int64_def UnixEpochTicks_def TicksPerSecond_def
      signed_take_bit_int_eq_self)

section \<open>The assembler\<close>

lemma assign_frame [simp]:
  "ModuleInfoLoaded (snd (assign legal b g)) = ModuleInfoLoaded g"
  "CPPClassInfoMap (snd (assign legal b g)) = CPPClassInfoMap g"
  by (simp_all add: assign_def split: option.split)

lemma resolve_cong:
  "ModuleInfoLoaded g' = ModuleInfoLoaded g \<Longrightarrow> CPPClassInfoMap g' = CPPClassInfoMap g \<Longrightarrow>
   resolve g' = resolve g"
  by (simp add: resolve_def fun_eq_iff)

lemma describe_all_Cons_ignored:
  "IsIgnoredActor m c \<Longrightarrow>
   describe_all tpl m p i (c # cs) g = describe_all tpl m p i cs g"
  by (simp add: CreateDecorateActor_def)

lemma describe_all_Cons_unresolved:
  "\<not> IsIgnoredActor m c \<Longrightarrow> resolve g (GetPrefixCPP c @ GetName c) = Inl e \<Longrightarrow>
   describe_all tpl m p i (c # cs) g = (Inl HeaderNotFound, g)"
  by (simp add: CreateDecorateActor_def)

lemma describe_all_Cons_resolved:
  "\<not> IsIgnoredActor m c \<Longrightarrow> resolve g (GetPrefixCPP c @ GetName c) = Inr h \<Longrightarrow>
   describe_all tpl m p i (c # cs) g =
     (case describe_all tpl m p i cs (snd (assign (IsCompilableName tpl) (GetName c) g)) of
        (Inl e, g2) \<Rightarrow> (Inl e, g2)
      | (Inr ds, g2) \<Rightarrow>
          (Inr (decorated c (fst (assign (IsCompilableName tpl) (GetName c) g)) h # ds), g2))"
  by (simp add: CreateDecorateActor_def split_def Let_def decorated_def split: sum.split)

lemma describe_all_frame:
  "ModuleInfoLoaded (snd (describe_all tpl m p i cs g)) = ModuleInfoLoaded g \<and>
   CPPClassInfoMap (snd (describe_all tpl m p i cs g)) = CPPClassInfoMap g"
proof (induction cs arbitrary: g)
  case Nil
  show ?case by simp
next
  case (Cons c cs)
  show ?case
  proof (cases "IsIgnoredActor m c")
    case True
    then show ?thesis by (simp add: describe_all_Cons_ignored Cons.IH del: describe_all.simps)
  next
    case False
    show ?thesis
    proof (cases "resolve g (GetPrefixCPP c @ GetName c)")
      case (Inl e)
      with False show ?thesis by (simp add: describe_all_Cons_unresolved del: describe_all.simps)
    next
      case (Inr h)
      let ?g1 = "snd (assign (IsCompilableName tpl) (GetName c) g)"
      from Cons.IH [of ?g1] show ?thesis
        unfolding describe_all_Cons_resolved [OF False Inr]
        by (cases "describe_all tpl m p i cs ?g1"; cases "fst (describe_all tpl m p i cs ?g1)")
           simp_all
    qed
  qed
qed

lemma describe_all_filter:
  "describe_all tpl m p i (filter (\<lambda>c. \<not> IsIgnoredActor m c) cs) g = describe_all tpl m p i cs g"
proof (induction cs arbitrary: g)
  case Nil
  show ?case by simp
next
  case (Cons c cs)
  show ?case
  proof (cases "IsIgnoredActor m c")
    case True
    then show ?thesis by (simp add: describe_all_Cons_ignored Cons.IH del: describe_all.simps)
  next
    case False
    show ?thesis
    proof (cases "resolve g (GetPrefixCPP c @ GetName c)")
      case (Inl e)
      with False show ?thesis
        by (simp add: describe_all_Cons_unresolved del: describe_all.simps)
    next
      case (Inr h)
      with False show ?thesis
        by (simp add: describe_all_Cons_resolved Cons.IH del: describe_all.simps)
    qed
  qed
qed

lemma describe_all_targets:
  "fst (describe_all tpl m p i cs g) = Inr ds \<Longrightarrow>
   map Target ds = filter (\<lambda>c. \<not> IsIgnoredActor m c) cs"
proof (induction cs arbitrary: g ds)
  case Nil
  then show ?case by simp
next
  case (Cons c cs)
  show ?case
  proof (cases "IsIgnoredActor m c")
    case True
    with Cons.prems have "fst (describe_all tpl m p i cs g) = Inr ds"
      by (simp add: describe_all_Cons_ignored del: describe_all.simps)
    with True Cons.IH show ?thesis by simp
  next
    case False
    show ?thesis
    proof (cases "resolve g (GetPrefixCPP c @ GetName c)")
      case (Inl e)
      with False Cons.prems show ?thesis
        by (simp add: describe_all_Cons_unresolved del: describe_all.simps)
    next
      case (Inr h)
      let ?g1 = "snd (assign (IsCompilableName tpl) (GetName c) g)"
      obtain r g2 where r: "describe_all tpl m p i cs ?g1 = (r, g2)" by (cases "describe_all tpl m p i cs ?g1")
      from Cons.prems False Inr r obtain ds' where ds': "r = Inr ds'"
          "ds = decorated c (fst (assign (IsCompilableName tpl) (GetName c) g)) h # ds'"
        by (cases r) (simp_all add: describe_all_Cons_resolved del: describe_all.simps)
      from r ds' have "fst (describe_all tpl m p i cs ?g1) = Inr ds'" by simp
      then have "map Target ds' = filter (\<lambda>c. \<not> IsIgnoredActor m c) cs" by (rule Cons.IH)
      with False ds' show ?thesis by (simp add: decorated_def)
    qed
  qed
qed

lemma describe_all_error:
  "(fst (describe_all tpl m p i cs g) = Inl HeaderNotFound \<longleftrightarrow>
     (\<exists>c \<in> set cs. \<not> IsIgnoredActor m c \<and> isl (resolve g (GetPrefixCPP c @ GetName c)))) \<and>
   (isl (fst (describe_all tpl m p i cs g)) \<longleftrightarrow>
     (\<exists>c \<in> set cs. \<not> IsIgnoredActor m c \<and> isl (resolve g (GetPrefixCPP c @ GetName c))))"
proof (induction cs arbitrary: g)
  case Nil
  show ?case by simp
next
  case (Cons c cs)
  show ?case
  proof (cases "IsIgnoredActor m c")
    case True
    then show ?thesis
      by (simp add: describe_all_Cons_ignored Cons.IH del: describe_all.simps)
  next
    case False
    show ?thesis
    proof (cases "resolve g (GetPrefixCPP c @ GetName c)")
      case (Inl e)
      with False show ?thesis
        by (simp add: describe_all_Cons_unresolved del: describe_all.simps)
    next
      case (Inr h)
      let ?g1 = "snd (assign (IsCompilableName tpl) (GetName c) g)"
      have res: "resolve ?g1 = resolve g" by (rule resolve_cong) simp_all
      obtain r g2 where r: "describe_all tpl m p i cs ?g1 = (r, g2)" by (cases "describe_all tpl m p i cs ?g1")
      have ih: "(r = Inl HeaderNotFound \<longleftrightarrow>
            (\<exists>c \<in> set cs. \<not> IsIgnoredActor m c \<and> isl (resolve g (GetPrefixCPP c @ GetName c))))"
          "(isl r \<longleftrightarrow>
            (\<exists>c \<in> set cs. \<not> IsIgnoredActor m c \<and> isl (resolve g (GetPrefixCPP c @ GetName c))))"
        using Cons.IH [of ?g1] r res by simp_all
      from False Inr r ih show ?thesis
        by (cases r) (simp_all add: describe_all_Cons_resolved del: describe_all.simps)
    qed
  qed
qed

lemma resolve_new_run [simp]: "resolve (new_run g) = resolve g"
  by (rule resolve_cong) (simp_all add: new_run_def)

lemma Generate_fst:
  "fst (Generate tpl defs m cs dir p i g) =
     (case fst (describe_all tpl m p i cs (new_run g)) of
        Inl e \<Rightarrow> Inl e
      | Inr ds \<Rightarrow>
          Inr \<lparr>TypeDefinitionsHeadCode = Render tpl TypeDefinitionsHead ds p i,
                TypeDefinitionsCppCode = Render tpl TypeDefinitionsCpp ds p i,
                ReplicatorRegistrationHeadCode = Render tpl RegistrationHead ds p i,
                ReplicatorCodes = map (GenerateActorCode tpl defs p i) ds,
                GlobalStructCodes = Render tpl GlobalStructs ds p i,
                GlobalStructProtoDefinitions = Render tpl GlobalStructProto ds p i,
                ChannelDataProcessorHeadCode = Render tpl ChannelDataProcessorHead ds p i,
                ChannelDataProtoDefsFile = Render tpl ChannelDataProto ds p i\<rparr>)"
  by (simp add: Generate_def split: prod.split sum.split)

lemma Generate_snd:
  "snd (Generate tpl defs m cs dir p i g) = snd (describe_all tpl m p i cs (new_run g))"
  by (simp add: Generate_def split: prod.split sum.split)

lemma new_run_eq:
  fixes g1 g2 :: FReplicatorCodeGenerator
  shows "ModuleInfoLoaded g2 = ModuleInfoLoaded g1 \<Longrightarrow> CPPClassInfoMap g2 = CPPClassInfoMap g1 \<Longrightarrow>
   new_run g2 = new_run g1"
  by (cases g1; cases g2) (simp add: new_run_def)

lemma ignored_example:
  "filter (\<lambda>c. \<not> IsIgnoredActor example_manager c) [class_Foo, class_Bar] = [class_Foo]"
  by (simp add: IsIgnoredActor_def FString_equals_def lower_code_def example_manager_def
      class_Foo_def class_Bar_def)

text \<open>
  Claim C8. Assembling a class list gives what assembling it without its ignored
  classes gives, so an ignored class makes no run fail. A bundle holds one entry per
  class that is not ignored, in the order of the input, and none for an ignored one.
  Assembly fails, with \<open>HeaderNotFound\<close>, exactly when the header of a class that is not
  ignored cannot be resolved, and gives a bundle exactly when there is no such class.
\<close>

theorem Generate_skips_ignored:
  "fst (Generate tpl defs m (filter (\<lambda>c. \<not> IsIgnoredActor m c) cs) dir p i g) =
     fst (Generate tpl defs m cs dir p i g) \<and>
   (\<forall>B. fst (Generate tpl defs m cs dir p i g) = Inr B \<longrightarrow>
      map (\<lambda>rc. Target (ActorDecorator rc)) (ReplicatorCodes B) =
        filter (\<lambda>c. \<not> IsIgnoredActor m c) cs) \<and>
   (fst (Generate tpl defs m cs dir p i g) = Inl HeaderNotFound \<longleftrightarrow>
      (\<exists>c \<in> set cs. \<not> IsIgnoredActor m c \<and> isl (resolve g (GetPrefixCPP c @ GetName c)))) \<and>
   ((\<exists>B. fst (Generate tpl defs m cs dir p i g) = Inr B) \<longleftrightarrow>
      \<not> (\<exists>c \<in> set cs. \<not> IsIgnoredActor m c \<and> isl (resolve g (GetPrefixCPP c @ GetName c))))"
proof (intro conjI allI impI)
  show "fst (Generate tpl defs m (filter (\<lambda>c. \<not> IsIgnoredActor m c) cs) dir p i g) =
     fst (Generate tpl defs m cs dir p i g)"
    by (simp add: Generate_fst describe_all_filter)
next
  fix B assume B: "fst (Generate tpl defs m cs dir p i g) = Inr B"
  then obtain ds where ds: "fst (describe_all tpl m p i cs (new_run g)) = Inr ds"
      "ReplicatorCodes B = map (GenerateActorCode tpl defs p i) ds"
    by (cases "fst (describe_all tpl m p i cs (new_run g))") (auto simp: Generate_fst)
  from describe_all_targets [OF ds(1)] ds(2)
  show "map (\<lambda>rc. Target (ActorDecorator rc)) (ReplicatorCodes B) =
        filter (\<lambda>c. \<not> IsIgnoredActor m c) cs"
    by (simp add: GenerateActorCode_def comp_def)
next
  show "fst (Generate tpl defs m cs dir p i g) = Inl HeaderNotFound \<longleftrightarrow>
      (\<exists>c \<in> set cs. \<not> IsIgnoredActor m c \<and> isl (resolve g (GetPrefixCPP c @ GetName c)))"
    using describe_all_error [of tpl m p i cs "new_run g"]
    by (cases "fst (describe_all tpl m p i cs (new_run g))") (simp_all add: Generate_fst)
next
  show "(\<exists>B. fst (Generate tpl defs m cs dir p i g) = Inr B) \<longleftrightarrow>
      \<not> (\<exists>c \<in> set cs. \<not> IsIgnoredActor m c \<and> isl (resolve g (GetPrefixCPP c @ GetName c)))"
    using describe_all_error [of tpl m p i cs "new_run g"]
    by (cases "fst (describe_all tpl m p i cs (new_run g))") (simp_all add: Generate_fst)
qed

text \<open>
  Claim C8's theorem at the classes \<open>Foo\<close> and \<open>Bar\<close>, \<open>Bar\<close> being ignored by its path,
  which the ignore list holds in another case of the letters: the outcome is the one of
  \<open>Foo\<close> alone.
\<close>

theorem Generate_skips_ignored_witness:
  "fst (Generate example_templates example_defs example_manager [class_Foo]
          ''Source/Game'' ''channeldpb'' ''channeldpb'' example_generator) =
   fst (Generate example_templates example_defs example_manager [class_Foo, class_Bar]
          ''Source/Game'' ''channeldpb'' ''channeldpb'' example_generator)"
  using Generate_skips_ignored [of example_templates example_defs example_manager
      "[class_Foo, class_Bar]" "''Source/Game''" "''channeldpb''" "''channeldpb''"
      example_generator]
  by (simp only: ignored_example)

text \<open>
  Claim C3. Two generators that hold the same module information assemble the same
  bundle (or fail alike) from the same classes, templates and names, whatever their
  counters were; so does one generator run twice.
\<close>

theorem Generate_two_runs:
  "(ModuleInfoLoaded g2 = ModuleInfoLoaded g1 \<and> CPPClassInfoMap g2 = CPPClassInfoMap g1 \<longrightarrow>
      fst (Generate tpl defs m cs dir p i g2) = fst (Generate tpl defs m cs dir p i g1)) \<and>
   fst (Generate tpl defs m cs dir p i (snd (Generate tpl defs m cs dir p i g1))) =
     fst (Generate tpl defs m cs dir p i g1)"
proof -
  have a: "fst (Generate tpl defs m cs dir p i g') = fst (Generate tpl defs m cs dir p i g)"
    if "ModuleInfoLoaded g' = ModuleInfoLoaded g" "CPPClassInfoMap g' = CPPClassInfoMap g" for g' g
    using new_run_eq [OF that] by (simp add: Generate_fst)
  have "ModuleInfoLoaded (snd (Generate tpl defs m cs dir p i g1)) = ModuleInfoLoaded g1"
       "CPPClassInfoMap (snd (Generate tpl defs m cs dir p i g1)) = CPPClassInfoMap g1"
    using describe_all_frame [of tpl m p i cs "new_run g1"]
    by (simp_all add: Generate_snd new_run_def)
  then have "fst (Generate tpl defs m cs dir p i (snd (Generate tpl defs m cs dir p i g1))) =
     fst (Generate tpl defs m cs dir p i g1)" by (rule a)
  with a show ?thesis by blast
qed

text \<open>
  Claim C3's theorem at a fresh generator and one whose counters earlier runs have
  moved.
\<close>

theorem Generate_two_runs_witness:
  "ModuleInfoLoaded used_generator = ModuleInfoLoaded example_generator \<and>
   CPPClassInfoMap used_generator = CPPClassInfoMap example_generator \<and>
   TargetActorSameNameCounter used_generator \<noteq> TargetActorSameNameCounter example_generator \<and>
   fst (Generate example_templates example_defs example_manager [class_Foo, class_Foo]
          ''Source/Game'' ''channeldpb'' ''channeldpb'' used_generator) =
   fst (Generate example_templates example_defs example_manager [class_Foo, class_Foo]
          ''Source/Game'' ''channeldpb'' ''channeldpb'' example_generator)"
proof -
  have a: "ModuleInfoLoaded used_generator = ModuleInfoLoaded example_generator"
    and b: "CPPClassInfoMap used_generator = CPPClassInfoMap example_generator"
    by (simp_all add: used_generator_def)
  have "TargetActorSameNameCounter used_generator ''Foo'' \<noteq>
      TargetActorSameNameCounter example_generator ''Foo''"
    by (simp add: used_generator_def example_generator_def)
  then have c: "TargetActorSameNameCounter used_generator \<noteq>
      TargetActorSameNameCounter example_generator" by metis
  from Generate_two_runs [of used_generator example_generator example_templates example_defs
      example_manager "[class_Foo, class_Foo]" "''Source/Game''" "''channeldpb''" "''channeldpb''"]
    a b c
  show ?thesis by simp
qed

end
